theory Spec2Isabelle
  imports Complex_Main
begin

section \<open>Python values shared by the three modules\<close>

text \<open>
  Exceptions are values. Every \<^verbatim>\<open>except Exception as e\<close> of the source catches all
  of them. \<open>AdapterError\<close> stands for whatever an SDK or gateway call raises;
  \<open>ResourcesNotFound\<close> is the \<^verbatim>\<open>ValueError\<close> raised by
  \<^verbatim>\<open>create_vm_with_vxsds_storage\<close>.
\<close>

datatype exn =
    NameError string
  | AttributeError string
  | KeyError string
  | ZeroDivisionError
  | OverflowError
  | ResourcesNotFound
  | AdapterError string

text \<open>
  A Python float that a computation of the source yields: a finite double, as the real it
  denotes, or an infinity (a float product that overflows is an infinity, not an
  exception).
\<close>

datatype pyfloat = Finite real | PosInf | NegInf

text \<open>
  The human-readable strings of the source are f-string templates (several of them in
  Russian). A template is a constructor and its interpolated values are the arguments, so
  two messages are equal exactly when template and values are. \<open>StrExn e\<close> is
  \<^verbatim>\<open>str(e)\<close>; \<open>Text s\<close> is a literal.
\<close>

datatype message =
    StrExn exn
  | Text string
  | NoSdcNodes                      \<comment> \<open>cee_vxsds_utils.py line 689\<close>
  | SdcNotAllOnline nat nat         \<comment> \<open>line 692: online/count\<close>
  | NoSdsNodes                      \<comment> \<open>line 696\<close>
  | SdsNotAllOnline nat nat         \<comment> \<open>line 699\<close>
  | CriticallyLowFreeSpace pyfloat  \<comment> \<open>line 709: the free percentage\<close>
  | LowFreeSpace pyfloat            \<comment> \<open>line 711\<close>
  | MonitoringError exn             \<comment> \<open>line 724, and cee_network_utils.py line 586\<close>
  | MissingRequiredBridge string    \<comment> \<open>cee_network_utils.py line 572\<close>
  | HighVswitchdCpu real            \<comment> \<open>line 578\<close>
  | TenantSetupFailed "message option"   \<comment> \<open>cee_integration_example.py line 119\<close>
  | NetworkSetupFailed "message option"  \<comment> \<open>line 131\<close>
  | OpenStackClusterIssues          \<comment> \<open>line 355\<close>
  | VxSDSIssues string              \<comment> \<open>line 364: the overall status\<close>
  | HighOVSCpuUsage real            \<comment> \<open>line 379\<close>
  | StatusCollectionError exn       \<comment> \<open>line 405\<close>
  | SystemNormal                    \<comment> \<open>line 387\<close>
  | ReviewAlerts                    \<comment> \<open>line 389\<close>
  | ConsiderAddingCapacity          \<comment> \<open>line 399\<close>
  | CheckFailedWithException exn    \<comment> \<open>line 444\<close>

text \<open>
  Float arithmetic. A real whose magnitude reaches \<open>2^1024 - 2^970\<close> (half a unit in the
  last place above the largest double) does not round to a double. Below that bound the
  result of an operation is the exact result rounded to the nearest double; the rounding
  \<open>fl\<close> is a parameter of every function that computes with floats, and the theorems
  hold for every rounding.

  Python's true division of two ints raises \<open>ZeroDivisionError\<close> on a zero divisor and
  \<open>OverflowError\<close> when the quotient is too large for a float; otherwise it is the
  rounded quotient. The product of a float and 100 is the rounded product, or an infinity.
  A float is compared with a number exactly.
\<close>

definition double_overflow :: "real \<Rightarrow> bool" where
  "double_overflow x = (\<bar>x\<bar> \<ge> 2 ^ 1024 - 2 ^ 970)"

definition py_truediv :: "(real \<Rightarrow> real) \<Rightarrow> int \<Rightarrow> int \<Rightarrow> exn + pyfloat" where
  "py_truediv fl a b =
     (if b = 0 then Inl ZeroDivisionError
      else if double_overflow (real_of_int a / real_of_int b) then Inl OverflowError
      else Inr (Finite (fl (real_of_int a / real_of_int b))))"

definition times_100 :: "(real \<Rightarrow> real) \<Rightarrow> pyfloat \<Rightarrow> pyfloat" where
  "times_100 fl x =
     (case x of
        Finite r \<Rightarrow>
          if double_overflow (r * 100) then (if 0 < r then PosInf else NegInf)
          else Finite (fl (r * 100))
      | PosInf \<Rightarrow> PosInf
      | NegInf \<Rightarrow> NegInf)"

definition float_less :: "pyfloat \<Rightarrow> real \<Rightarrow> bool" where
  "float_less x c = (case x of Finite r \<Rightarrow> r < c | PosInf \<Rightarrow> False | NegInf \<Rightarrow> True)"


section \<open>cee\_vxsds\_utils.py: the storage summary and the storage classifier\<close>

subsection \<open>Data classes\<close>

record VxSDSStoragePoolInfo =
  pool_id :: string
  pool_name :: string
  pool_protection_domain :: string
  media_type :: string
  capacity_gb :: int
  free_capacity_gb :: int
  num_volumes :: int
  spare_percentage :: int

record VxSDSVolumeInfo =
  volume_id :: string
  volume_name :: string
  size_gb :: int
  storage_pool :: string
  volume_protection_domain :: string
  volume_type :: string
  creation_time :: "string option"
  mapped_sdcs :: "string list option"    \<comment> \<open>the dataclass default is None\<close>

record VxSDSNodeInfo =
  node_id :: string
  node_name :: string
  ip_addresses :: "string list"
  role :: string
  state :: string
  version :: string

subsection \<open>The gateway client as seen during one call\<close>

text \<open>
  \<^verbatim>\<open>VxSDSClient\<close> is the adapter. During one call of the manager each of its list
  methods is asked at most once, so the environment of a call is what each method would
  answer (a list, or an exception when the gateway's body is malformed) together with the
  readings of \<^verbatim>\<open>time.time()\<close> the call makes, in time units.
\<close>

record vxsds_env =
  time_health :: int     \<comment> \<open>read by monitor\_vxsds\_health, line 672\<close>
  time_cache :: int      \<comment> \<open>read by \_update\_cache, line 505\<close>
  time_summary :: int    \<comment> \<open>read by get\_cee\_storage\_summary, line 605\<close>
  get_protection_domains :: "exn + string list"
  get_storage_pools :: "exn + VxSDSStoragePoolInfo list"
  get_volumes :: "exn + VxSDSVolumeInfo list"
  get_sdc_nodes :: "exn + VxSDSNodeInfo list"
  get_sds_nodes :: "exn + VxSDSNodeInfo list"

datatype vxsds_call =
  GetProtectionDomains | GetStoragePools | GetVolumes | GetSdcNodes | GetSdsNodes

text \<open>
  The manager's fields, and the list of requests its client \<^verbatim>\<open>self.vxsds\<close> has been
  asked so far (what a mock adapter counts).
\<close>

record CEEVxSDSManager =
  vxsds_calls :: "vxsds_call list"
  protection_domains_cache :: "string list option"
  storage_pools_cache :: "VxSDSStoragePoolInfo list option"
  cache_time :: int
  cache_ttl :: int

definition CEEVxSDSManager_init :: CEEVxSDSManager where
  "CEEVxSDSManager_init =
     \<lparr>vxsds_calls = [], protection_domains_cache = None, storage_pools_cache = None,
      cache_time = 0, cache_ttl = 300\<rparr>"

definition ask :: "vxsds_call \<Rightarrow> CEEVxSDSManager \<Rightarrow> CEEVxSDSManager" where
  "ask c m = m\<lparr>vxsds_calls := vxsds_calls m @ [c]\<rparr>"

text \<open>\<^verbatim>\<open>_update_cache\<close>, lines 503 to 509.\<close>

definition update_cache :: "vxsds_env \<Rightarrow> CEEVxSDSManager \<Rightarrow> (exn + unit) \<times> CEEVxSDSManager" where
  "update_cache env m =
     (let current_time = time_cache env in
      if current_time - cache_time m > cache_ttl m then
        (let m1 = ask GetProtectionDomains m in
         case get_protection_domains env of
           Inl e \<Rightarrow> (Inl e, m1)
         | Inr pds \<Rightarrow>
             (let m2 = ask GetStoragePools (m1\<lparr>protection_domains_cache := Some pds\<rparr>) in
              case get_storage_pools env of
                Inl e \<Rightarrow> (Inl e, m2)
              | Inr pools \<Rightarrow>
                  (Inr (), m2\<lparr>storage_pools_cache := Some pools, cache_time := current_time\<rparr>)))
      else (Inr (), m))"

subsection \<open>The summary\<close>

record pool_entry =
  entry_capacity_gb :: int
  entry_free_capacity_gb :: int
  entry_num_volumes :: int
  entry_media_type :: string

record capacity =
  total_gb :: int
  free_gb :: int
  used_gb :: int

record type_stats =
  type_count :: nat
  type_size_gb :: int

record volume_stats =
  total_count :: nat
  total_size_gb :: int
  by_type :: "string \<rightharpoonup> type_stats"
  mapped_count :: nat

record node_stats =
  sdc_count :: nat
  sds_count :: nat
  sdc_online :: nat
  sds_online :: nat

record summary =
  summary_timestamp :: int
  protection_domains :: nat
  storage_pools :: "string \<rightharpoonup> pool_entry"
  volumes :: volume_stats
  nodes :: node_stats
  capacity :: capacity

text \<open>\<^verbatim>\<open>x or []\<close> on a cache that is None or a list.\<close>

definition or_empty :: "'a list option \<Rightarrow> 'a list" where
  "or_empty c = (case c of None \<Rightarrow> [] | Some xs \<Rightarrow> xs)"

text \<open>
  The loop over the pools, lines 618 to 627, on the two entries of the summary it
  updates: the dict \<^verbatim>\<open>storage_pools\<close> and the dict \<^verbatim>\<open>capacity\<close>.
\<close>

fun analyse_pools ::
  "VxSDSStoragePoolInfo list \<Rightarrow> (string \<rightharpoonup> pool_entry) \<times> capacity \<Rightarrow>
   (string \<rightharpoonup> pool_entry) \<times> capacity" where
  "analyse_pools [] acc = acc"
| "analyse_pools (pool # rest) (pools, cap) =
     analyse_pools rest
       (pools(pool_name pool \<mapsto>
          \<lparr>entry_capacity_gb = capacity_gb pool,
           entry_free_capacity_gb = free_capacity_gb pool,
           entry_num_volumes = num_volumes pool,
           entry_media_type = media_type pool\<rparr>),
        cap\<lparr>total_gb := total_gb cap + capacity_gb pool,
            free_gb := free_gb cap + free_capacity_gb pool\<rparr>)"

text \<open>The loop over the volumes, lines 642 to 650. A list is truthy when it is not empty.\<close>

definition truthy_list :: "'a list option \<Rightarrow> bool" where
  "truthy_list c = (case c of None \<Rightarrow> False | Some xs \<Rightarrow> xs \<noteq> [])"

fun analyse_volumes :: "VxSDSVolumeInfo list \<Rightarrow> volume_stats \<Rightarrow> volume_stats" where
  "analyse_volumes [] vs = vs"
| "analyse_volumes (volume # rest) vs =
     (let seen = (case by_type vs (volume_type volume) of
                    None \<Rightarrow> \<lparr>type_count = 0, type_size_gb = 0\<rparr>
                  | Some t \<Rightarrow> t);
          bumped = \<lparr>type_count = type_count seen + 1,
                    type_size_gb = type_size_gb seen + size_gb volume\<rparr>
      in analyse_volumes rest
           (vs\<lparr>by_type := (by_type vs)(volume_type volume \<mapsto> bumped),
               mapped_count := (if truthy_list (mapped_sdcs volume)
                                then mapped_count vs + 1 else mapped_count vs)\<rparr>))"

text \<open>
  \<^verbatim>\<open>get_cee_storage_summary\<close>, lines 598 to 665. The entries \<^verbatim>\<open>volumes\<close> and
  \<^verbatim>\<open>nodes\<close> start as empty dicts and are assigned before the only return, so the
  record is built once all its entries are known; an exception of the client leaves the
  function before that.
\<close>

definition get_cee_storage_summary ::
  "vxsds_env \<Rightarrow> CEEVxSDSManager \<Rightarrow> (exn + summary) \<times> CEEVxSDSManager" where
  "get_cee_storage_summary env m =
     (case update_cache env m of
        (Inl e, m1) \<Rightarrow> (Inl e, m1)
      | (Inr _, m1) \<Rightarrow>
          (let timestamp = time_summary env;
               n_domains = length (or_empty (protection_domains_cache m1));
               (pools, cap) = analyse_pools (or_empty (storage_pools_cache m1))
                  (Map.empty, \<lparr>total_gb = 0, free_gb = 0, used_gb = 0\<rparr>);
               cap = cap\<lparr>used_gb := total_gb cap - free_gb cap\<rparr>;
               m2 = ask GetVolumes m1
           in case get_volumes env of
                Inl e \<Rightarrow> (Inl e, m2)
              | Inr vols \<Rightarrow>
                  (let volume_stats =
                         analyse_volumes vols
                           \<lparr>total_count = length vols,
                            total_size_gb = sum_list (map size_gb vols),
                            by_type = Map.empty,
                            mapped_count = 0\<rparr>;
                       m3 = ask GetSdcNodes m2
                   in case get_sdc_nodes env of
                        Inl e \<Rightarrow> (Inl e, m3)
                      | Inr sdc_nodes \<Rightarrow>
                          (let m4 = ask GetSdsNodes m3
                           in case get_sds_nodes env of
                                Inl e \<Rightarrow> (Inl e, m4)
                              | Inr sds_nodes \<Rightarrow>
                                  (Inr \<lparr>summary_timestamp = timestamp,
                                        protection_domains = n_domains,
                                        storage_pools = pools,
                                        volumes = volume_stats,
                                        nodes =
                                          \<lparr>sdc_count = length sdc_nodes,
                                           sds_count = length sds_nodes,
                                           sdc_online =
                                             length (filter (\<lambda>n. state n = ''Connected'') sdc_nodes),
                                           sds_online =
                                             length (filter (\<lambda>n. state n = ''Normal'') sds_nodes)\<rparr>,
                                        capacity = cap\<rparr>,
                                   m4)))))"

subsection \<open>The classifier\<close>

record health_report =
  report_timestamp :: int
  overall_status :: string
  issues :: "message list"
  warnings :: "message list"
  metrics :: "summary option"     \<comment> \<open>None is the empty dict of line 676\<close>

text \<open>
  The checks of \<^verbatim>\<open>monitor_vxsds_health\<close>, lines 684 to 711: the two local lists
  \<^verbatim>\<open>issues\<close> and \<^verbatim>\<open>warnings\<close> as they stand at line 713, or the exception that
  left the block.
\<close>

definition health_checks ::
  "(real \<Rightarrow> real) \<Rightarrow> summary \<Rightarrow> exn + message list \<times> message list" where
  "health_checks fl summary =
     (let issues0 = []; warnings0 = [];
          (issues1, warnings1) =
            (if sdc_count (nodes summary) = 0 then (issues0 @ [NoSdcNodes], warnings0)
             else if sdc_online (nodes summary) < sdc_count (nodes summary)
             then (issues0, warnings0 @
                     [SdcNotAllOnline (sdc_online (nodes summary)) (sdc_count (nodes summary))])
             else (issues0, warnings0));
          (issues2, warnings2) =
            (if sds_count (nodes summary) = 0 then (issues1 @ [NoSdsNodes], warnings1)
             else if sds_online (nodes summary) < sds_count (nodes summary)
             then (issues1, warnings1 @
                     [SdsNotAllOnline (sds_online (nodes summary)) (sds_count (nodes summary))])
             else (issues1, warnings1))
      in if total_gb (capacity summary) > 0 then
           (case py_truediv fl (free_gb (capacity summary)) (total_gb (capacity summary)) of
              Inl e \<Rightarrow> Inl e
            | Inr q \<Rightarrow>
                (let free_percentage = times_100 fl q in
                 if float_less free_percentage 10
                 then Inr (issues2 @ [CriticallyLowFreeSpace free_percentage], warnings2)
                 else if float_less free_percentage 20
                 then Inr (issues2, warnings2 @ [LowFreeSpace free_percentage])
                 else Inr (issues2, warnings2)))
         else Inr (issues2, warnings2))"

text \<open>\<^verbatim>\<open>monitor_vxsds_health\<close>, lines 667 to 726.\<close>

definition monitor_vxsds_health ::
  "(real \<Rightarrow> real) \<Rightarrow> vxsds_env \<Rightarrow> CEEVxSDSManager \<Rightarrow> health_report \<times> CEEVxSDSManager" where
  "monitor_vxsds_health fl env m =
     (let health_report =
            \<lparr>report_timestamp = time_health env, overall_status = ''healthy'',
             issues = [], warnings = [], metrics = None\<rparr>
      in case get_cee_storage_summary env m of
           (Inl e, m1) \<Rightarrow>
             (health_report\<lparr>overall_status := ''error'', issues := [MonitoringError e]\<rparr>, m1)
         | (Inr summary, m1) \<Rightarrow>
             (let health_report = health_report\<lparr>metrics := Some summary\<rparr>
              in case health_checks fl summary of
                   Inl e \<Rightarrow>
                     (health_report\<lparr>overall_status := ''error'',
                                    issues := [MonitoringError e]\<rparr>, m1)
                 | Inr (issues1, warnings1) \<Rightarrow>
                     (let health_report =
                            health_report\<lparr>issues := issues1, warnings := warnings1\<rparr>
                      in (if issues1 \<noteq> [] then health_report\<lparr>overall_status := ''critical''\<rparr>
                          else if warnings1 \<noteq> [] then health_report\<lparr>overall_status := ''warning''\<rparr>
                          else health_report,
                          m1))))"


section \<open>cee\_network\_utils.py: switch performance and the network classifier\<close>

text \<open>
  The module's import block (lines 12 to 17) does not import \<^verbatim>\<open>time\<close>; the only
  \<^verbatim>\<open>import time\<close> stands under \<^verbatim>\<open>if __name__ == "__main__"\<close> (line 594), where it
  binds the module global. So the name is bound when the file runs as a script and unbound
  when the module is imported, as cee\_integration\_example.py does (line 19).
\<close>

datatype run_mode = Imported | Script

definition time_time :: "run_mode \<Rightarrow> int \<Rightarrow> exn + int" where
  "time_time mode now = (case mode of Imported \<Rightarrow> Inl (NameError ''time'') | Script \<Rightarrow> Inr now)"

record OVSBridgeInfo =
  bridge_name :: string
  datapath_type :: string
  ports :: "string list"
  controller :: "string option"
  fail_mode :: "string option"

datatype stat_value = IntStat int | StrStat string

text \<open>
  The switch as seen during one call of \<^verbatim>\<open>monitor_ovs_performance\<close>: the lines of
  \<^verbatim>\<open>ovs-vsctl list-br\<close> with the command's success flag, what the manager's own
  \<^verbatim>\<open>get_bridge_info\<close> (which can raise while it parses) and
  \<^verbatim>\<open>get_port_statistics\<close> (which cannot) return, and what the guarded
  \<^verbatim>\<open>ps aux\<close> block of lines 344 to 354 leaves under the key \<^verbatim>\<open>ovs_vswitchd\<close> of
  \<^verbatim>\<open>cpu_usage\<close> and \<^verbatim>\<open>memory_usage\<close> (nothing when the command fails, no line
  matches or a field is not a number). The two figures are floats parsed from the
  command's output, read as the reals they denote.
\<close>

record switch_env =
  time_perf :: int
  list_br :: "bool \<times> string list"
  get_bridge_info :: "string \<Rightarrow> exn + OVSBridgeInfo option"
  get_port_statistics :: "string \<Rightarrow> string \<Rightarrow> (string \<times> stat_value) list"
  vswitchd_cpu :: "real option"
  vswitchd_memory :: "real option"

record bridge_performance =
  ports_count :: nat
  perf_datapath_type :: string
  port_stats :: "string \<rightharpoonup> (string \<times> stat_value) list"   \<comment> \<open>key: the port of port\_NAME\_stats\<close>

record performance_data =
  perf_timestamp :: int
  perf_bridges :: "string \<rightharpoonup> bridge_performance"
  cpu_usage :: "string \<rightharpoonup> real"
  memory_usage :: "string \<rightharpoonup> real"

text \<open>The loop over a bridge's ports, lines 338 to 341.\<close>

fun port_loop :: "switch_env \<Rightarrow> string \<Rightarrow> string list \<Rightarrow> bridge_performance \<Rightarrow> bridge_performance" where
  "port_loop sw bridge [] bp = bp"
| "port_loop sw bridge (port # rest) bp =
     (let stats = get_port_statistics sw bridge port
      in port_loop sw bridge rest
           (if stats \<noteq> [] then bp\<lparr>port_stats := (port_stats bp)(port \<mapsto> stats)\<rparr> else bp))"

text \<open>
  The loop over the bridges, lines 328 to 341. An exception of \<^verbatim>\<open>get_bridge_info\<close>
  leaves the loop with what was stored so far.
\<close>

fun bridge_loop ::
  "switch_env \<Rightarrow> string list \<Rightarrow> performance_data \<Rightarrow> (exn + unit) \<times> performance_data" where
  "bridge_loop sw [] pd = (Inr (), pd)"
| "bridge_loop sw (bridge # rest) pd =
     (if bridge \<noteq> [] then
        (case get_bridge_info sw bridge of
           Inl e \<Rightarrow> (Inl e, pd)
         | Inr None \<Rightarrow> bridge_loop sw rest pd
         | Inr (Some bridge_info) \<Rightarrow>
             bridge_loop sw rest
               (pd\<lparr>perf_bridges := (perf_bridges pd)(bridge \<mapsto>
                    port_loop sw bridge (ports bridge_info)
                      \<lparr>ports_count = length (ports bridge_info),
                       perf_datapath_type = datapath_type bridge_info,
                       port_stats = Map.empty\<rparr>)\<rparr>))
      else bridge_loop sw rest pd)"

text \<open>
  \<^verbatim>\<open>monitor_ovs_performance\<close>, lines 311 to 359. The dict literal of lines 315 to 320
  evaluates \<^verbatim>\<open>time.time()\<close> before the \<^verbatim>\<open>try\<close> of line 322, so its exception is
  not caught; everything after it is.
\<close>

definition monitor_ovs_performance :: "run_mode \<Rightarrow> switch_env \<Rightarrow> exn + performance_data" where
  "monitor_ovs_performance mode sw =
     (case time_time mode (time_perf sw) of
        Inl e \<Rightarrow> Inl e
      | Inr now \<Rightarrow>
          (let performance_data =
                 \<lparr>perf_timestamp = now, perf_bridges = Map.empty,
                  cpu_usage = Map.empty, memory_usage = Map.empty\<rparr>;
               (success, bridges) = list_br sw;
               (r, performance_data) =
                 (if success then bridge_loop sw bridges performance_data
                  else (Inr (), performance_data))
           in case r of
                Inl e \<Rightarrow> Inr performance_data
              | Inr _ \<Rightarrow>
                  Inr (performance_data
                    \<lparr>cpu_usage := (case vswitchd_cpu sw of
                                     None \<Rightarrow> cpu_usage performance_data
                                   | Some c \<Rightarrow> (cpu_usage performance_data)(''ovs_vswitchd'' \<mapsto> c)),
                     memory_usage := (case vswitchd_memory sw of
                                        None \<Rightarrow> memory_usage performance_data
                                      | Some c \<Rightarrow> (memory_usage performance_data)(''ovs_vswitchd'' \<mapsto> c))\<rparr>)))"

text \<open>
  The topology is what \<^verbatim>\<open>discover_cee_topology\<close> returns; its whole body stands in a
  \<^verbatim>\<open>try\<close> that catches everything, so it always returns the dict, whose entry
  \<^verbatim>\<open>bridges\<close> is all the classifier reads.
\<close>

record topology_bridge =
  topo_datapath_type :: string
  topo_ports :: "string list"
  topo_role :: string

record topology =
  topo_bridges :: "string \<rightharpoonup> topology_bridge"
  tunnels :: "string list"
  node_type :: "string option"

record network_health_report =
  net_timestamp :: int
  net_overall_status :: string
  net_issues :: "message list"
  performance :: "performance_data option"
  net_topology :: "topology option"

text \<open>
  The loop over \<^verbatim>\<open>required_bridges\<close>, lines 570 to 572; \<open>found\<close> is the local
  list \<^verbatim>\<open>issues\<close>.
\<close>

fun required_bridges_loop :: "topology \<Rightarrow> string list \<Rightarrow> message list \<Rightarrow> message list" where
  "required_bridges_loop topo [] found = found"
| "required_bridges_loop topo (bridge # rest) found =
     required_bridges_loop topo rest
       (if topo_bridges topo bridge = None then found @ [MissingRequiredBridge bridge] else found)"

text \<open>
  \<^verbatim>\<open>monitor_cee_network_health\<close>, lines 541 to 588. The dict literal of lines 548 to
  554 reads the clock before the \<^verbatim>\<open>try\<close>. \<open>topo_data\<close> is the return value of
  \<^verbatim>\<open>discover_cee_topology\<close>.
\<close>

definition monitor_cee_network_health ::
  "run_mode \<Rightarrow> int \<Rightarrow> topology \<Rightarrow> switch_env \<Rightarrow> exn + network_health_report" where
  "monitor_cee_network_health mode now topo_data sw =
     (case time_time mode now of
        Inl e \<Rightarrow> Inl e
      | Inr ts \<Rightarrow>
          (let health_report =
                 \<lparr>net_timestamp = ts, net_overall_status = ''healthy'', net_issues = [],
                  performance = None, net_topology = None\<rparr>;
               health_report = health_report\<lparr>net_topology := Some topo_data\<rparr>
           in case monitor_ovs_performance mode sw of
                Inl e \<Rightarrow>
                  Inr (health_report\<lparr>net_overall_status := ''error'',
                         net_issues := net_issues health_report @ [MonitoringError e]\<rparr>)
              | Inr perf_data \<Rightarrow>
                  (let health_report = health_report\<lparr>performance := Some perf_data\<rparr>;
                       issues = required_bridges_loop topo_data [''br-int''] [];
                       issues =
                         (case cpu_usage perf_data ''ovs_vswitchd'' of
                            None \<Rightarrow> issues
                          | Some cpu \<Rightarrow>
                              if cpu > 80 then issues @ [HighVswitchdCpu cpu] else issues);
                       health_report = health_report\<lparr>net_issues := issues\<rparr>
                   in Inr (if issues \<noteq> []
                           then health_report\<lparr>net_overall_status :=
                                  (if length issues \<le> 2 then ''warning'' else ''critical'')\<rparr>
                           else health_report))))"


section \<open>cee\_openstack\_client.py: the calls the orchestrator composes\<close>

text \<open>
  A created resource is known by its id. The SDK connection \<^verbatim>\<open>self.conn\<close> is the
  adapter: the environment says what each call would answer on given arguments (the
  arguments that are the same at every call site are left out), and every call made is
  appended to a trace, as a mock connection records it.
  \<^verbatim>\<open>create_vm_with_vxsds_storage\<close> is a wrapper whose whole body stands in a
  \<^verbatim>\<open>try\<close> that catches everything: it answers a success dict with the server and the
  volume, or an error dict with a message, and is taken at that level.
\<close>

type_synonym handle = string

record vm_request =
  vm_name :: string
  vm_image :: string
  vm_flavor :: string
  vm_network_name :: string
  vm_volume_size :: int
  vm_volume_type :: string

datatype os_call =
    CreateProject string string
  | CreateUser string string handle
  | FindRole string
  | AssignProjectRoleToUser handle handle handle
  | CreateNetwork string string
  | CreateSubnet handle string string
  | CreateRouter string handle
  | AddInterfaceToRouter handle handle
  | CreateSecurityGroup string handle
  | CreateSecurityGroupRule handle nat nat string
  | NetworkPorts handle
  | CreateVmWithVxsdsStorage vm_request
  | ConfigureOvsQos handle "int option" "int option"

record os_env =
  create_project :: "string \<Rightarrow> string \<Rightarrow> exn + handle"
  create_user :: "string \<Rightarrow> string \<Rightarrow> handle \<Rightarrow> exn + handle"
  find_role :: "string \<Rightarrow> exn + handle option"
  assign_project_role_to_user :: "handle \<Rightarrow> handle \<Rightarrow> handle \<Rightarrow> exn + unit"
  create_network :: "string \<Rightarrow> string \<Rightarrow> exn + handle"
  create_subnet :: "handle \<Rightarrow> string \<Rightarrow> string \<Rightarrow> exn + handle"
  create_router :: "string \<Rightarrow> handle \<Rightarrow> exn + handle"
  add_interface_to_router :: "handle \<Rightarrow> handle \<Rightarrow> exn + unit"
  create_security_group :: "string \<Rightarrow> handle \<Rightarrow> exn + handle"
  create_security_group_rule :: "handle \<Rightarrow> nat \<Rightarrow> nat \<Rightarrow> string \<Rightarrow> exn + unit"
  network_ports :: "handle \<Rightarrow> exn + handle list"
  create_vm_with_vxsds_storage :: "vm_request \<Rightarrow> message + handle \<times> handle"

text \<open>
  A computation that logs its calls and may raise. \<open>sdk c answer\<close> makes the call
  \<open>c\<close>, whose answer is \<open>answer\<close>; \<open>bind_os\<close> is sequencing inside one
  \<^verbatim>\<open>try\<close> block: the first exception ends the block.
\<close>

type_synonym 'a os = "os_call list \<Rightarrow> (exn + 'a) \<times> os_call list"











section \<open>cee\_integration\_example.py: the orchestrator\<close>

subsection \<open>Tenant provisioning\<close>



record security_groups =
  web :: "handle option"
  ssh :: "handle option"







subsection \<open>Stack deployment\<close>

record volume_config =
  vc_name :: "string option"       \<comment> \<open>None: the dict has no key name\<close>
  vc_flavor :: "string option"
  vc_size_gb :: "int option"
  vc_type :: "string option"

record qos_config =
  max_kbps :: "int option"
  min_kbps :: "int option"

record instance_config =
  ic_name :: "string option"
  ic_image :: "string option"
  ic_flavor :: "string option"
  ic_network :: "string option"
  ic_disk_size_gb :: "int option"
  ic_volume_type :: "string option"
  ic_qos :: "qos_config option"    \<comment> \<open>None: no key qos, or a falsy value\<close>

record stack_config =
  instances :: "instance_config list"    \<comment> \<open>the empty list without the key\<close>
  volume_specs :: "volume_config list"

record stack_result =
  stack_name :: string
  stack_status :: string
  stack_instances :: "handle list"
  stack_volumes :: "handle list"
  load_balancers :: "handle list"
  stack_message :: "message option"

text \<open>\<^verbatim>\<open>d.get(key, default)\<close>.\<close>

definition get_or :: "'a option \<Rightarrow> 'a \<Rightarrow> 'a" where
  "get_or v d = (case v of None \<Rightarrow> d | Some x \<Rightarrow> x)"

text \<open>The keyword arguments of the two creation calls, lines 286 to 290 and 299 to 304.\<close>

definition volume_request :: "string \<Rightarrow> string \<Rightarrow> volume_config \<Rightarrow> vm_request" where
  "volume_request sname nm vol_config =
     \<lparr>vm_name = sname @ ''-'' @ nm @ ''-vol'',
      vm_image = ''dummy'',
      vm_flavor = get_or (vc_flavor vol_config) ''m1.small'',
      vm_network_name = ''cee_ctrl_sp'',
      vm_volume_size = get_or (vc_size_gb vol_config) 20,
      vm_volume_type = get_or (vc_type vol_config) ''vxsds_thin_SSD''\<rparr>"

definition instance_request :: "string \<Rightarrow> string \<Rightarrow> instance_config \<Rightarrow> vm_request" where
  "instance_request sname nm inst_config =
     \<lparr>vm_name = sname @ ''-'' @ nm,
      vm_image = get_or (ic_image inst_config) ''ubuntu-20.04'',
      vm_flavor = get_or (ic_flavor inst_config) ''m1.medium'',
      vm_network_name = get_or (ic_network inst_config) ''default'',
      vm_volume_size = get_or (ic_disk_size_gb inst_config) 20,
      vm_volume_type = get_or (ic_volume_type inst_config) ''vxsds_thin_SSD''\<rparr>"

text \<open>
  The loop over the volume specs, lines 284 to 294. Python evaluates the method lookup
  before the arguments, so a missing client raises before a missing name does.
\<close>

fun volumes_loop ::
  "os_env option \<Rightarrow> string \<Rightarrow> volume_config list \<Rightarrow> stack_result \<Rightarrow> os_call list \<Rightarrow>
   (exn + unit) \<times> stack_result \<times> os_call list" where
  "volumes_loop client sname [] res trace = (Inr (), res, trace)"
| "volumes_loop client sname (vol_config # rest) res trace =
     (case client of
        None \<Rightarrow> (Inl (AttributeError ''create_vm_with_vxsds_storage''), res, trace)
      | Some conn \<Rightarrow>
          (case vc_name vol_config of
             None \<Rightarrow> (Inl (KeyError ''name''), res, trace)
           | Some nm \<Rightarrow>
               (let request = volume_request sname nm vol_config;
                    volume_result = create_vm_with_vxsds_storage conn request;
                    trace1 = trace @ [CreateVmWithVxsdsStorage request]
                in volumes_loop client sname rest
                     (case volume_result of
                        Inr (server, volume) \<Rightarrow> res\<lparr>stack_volumes := stack_volumes res @ [volume]\<rparr>
                      | Inl _ \<Rightarrow> res)
                     trace1)))"

text \<open>The loop over the instance specs, lines 297 to 323.\<close>

fun instances_loop ::
  "os_env option \<Rightarrow> string \<Rightarrow> instance_config list \<Rightarrow> stack_result \<Rightarrow> os_call list \<Rightarrow>
   (exn + unit) \<times> stack_result \<times> os_call list" where
  "instances_loop client sname [] res trace = (Inr (), res, trace)"
| "instances_loop client sname (inst_config # rest) res trace =
     (case client of
        None \<Rightarrow> (Inl (AttributeError ''create_vm_with_vxsds_storage''), res, trace)
      | Some conn \<Rightarrow>
          (case ic_name inst_config of
             None \<Rightarrow> (Inl (KeyError ''name''), res, trace)
           | Some nm \<Rightarrow>
               (let request = instance_request sname nm inst_config;
                    instance_result = create_vm_with_vxsds_storage conn request;
                    trace1 = trace @ [CreateVmWithVxsdsStorage request]
                in case instance_result of
                     Inl _ \<Rightarrow> instances_loop client sname rest res trace1
                   | Inr (server, volume) \<Rightarrow>
                       (let res1 = res\<lparr>stack_instances := stack_instances res @ [server]\<rparr>
                        in case ic_qos inst_config of
                             None \<Rightarrow> instances_loop client sname rest res1 trace1
                           | Some qos \<Rightarrow>
                               (case network_ports conn server of
                                  Inl e \<Rightarrow> (Inl e, res1, trace1 @ [NetworkPorts server])
                                | Inr port_ids \<Rightarrow>
                                    instances_loop client sname rest res1
                                      (trace1 @ [NetworkPorts server] @
                                       map (\<lambda>port. ConfigureOvsQos port (max_kbps qos) (min_kbps qos))
                                         port_ids))))))"

text \<open>\<^verbatim>\<open>deploy_application_stack\<close>, lines 256 to 332.\<close>

definition deploy_application_stack ::
  "os_env option \<Rightarrow> string \<Rightarrow> handle \<Rightarrow> stack_config \<Rightarrow> os_call list \<Rightarrow>
   stack_result \<times> os_call list" where
  "deploy_application_stack openstack_client sname project_id config trace =
     (let result = \<lparr>stack_name = sname, stack_status = ''success'', stack_instances = [],
                     stack_volumes = [], load_balancers = [], stack_message = None\<rparr>;
          instances_config = instances config;
          volumes_config = volume_specs config
      in case volumes_loop openstack_client sname volumes_config result trace of
           (Inl e, result, trace1) \<Rightarrow>
             (result\<lparr>stack_status := ''error'', stack_message := Some (StrExn e)\<rparr>, trace1)
         | (Inr _, result, trace1) \<Rightarrow>
             (case instances_loop openstack_client sname instances_config result trace1 of
                (Inl e, result, trace2) \<Rightarrow>
                  (result\<lparr>stack_status := ''error'', stack_message := Some (StrExn e)\<rparr>, trace2)
              | (Inr _, result, trace2) \<Rightarrow> (result, trace2)))"


subsection \<open>The comprehensive status\<close>

text \<open>
  Each of the three attributes \<^verbatim>\<open>openstack_client\<close>, \<^verbatim>\<open>vxsds_manager\<close> and
  \<^verbatim>\<open>ovs_manager\<close> is None or an object, given by what its monitoring method does when
  \<^verbatim>\<open>get_comprehensive_status\<close> calls it: it returns a value or raises. For the objects of
  this repository these are \<^verbatim>\<open>get_cee_cluster_status\<close> (a success dict with the cluster
  status or an error dict with a message; it catches everything), \<open>monitor_vxsds_health\<close>
  and \<open>monitor_ovs_performance\<close> above.
\<close>

record cluster_status =
  cluster_timestamp :: int
  compute_services :: nat
  network_agents :: nat
  volume_services :: nat
  total_hypervisors :: nat
  total_instances :: nat
  total_networks :: nat
  total_subnets :: nat
  ovs_agents :: nat

type_synonym cluster_result = "message + cluster_status"

record components =
  comp_openstack :: "cluster_result option"
  comp_vxsds :: "health_report option"
  comp_ovs :: "performance_data option"

record system_status =
  status_timestamp :: int
  overall_health :: string
  components :: components
  alerts :: "message list"
  recommendations :: "message list"

text \<open>Lines 350 to 356.\<close>

definition collect_openstack ::
  "(exn + cluster_result) option \<Rightarrow> system_status \<Rightarrow> exn + system_status" where
  "collect_openstack openstack_client status =
     (case openstack_client of
        None \<Rightarrow> Inr status
      | Some (Inl e) \<Rightarrow> Inl e
      | Some (Inr os_status) \<Rightarrow>
          (let status = status\<lparr>components := (components status)\<lparr>comp_openstack := Some os_status\<rparr>\<rparr>
           in if (case os_status of Inl _ \<Rightarrow> ''error'' | Inr _ \<Rightarrow> ''success'') \<noteq> ''success''
              then Inr (status\<lparr>alerts := alerts status @ [OpenStackClusterIssues],
                               overall_health := ''warning''\<rparr>)
              else Inr status))"

text \<open>Lines 359 to 368.\<close>

definition collect_vxsds ::
  "(exn + health_report) option \<Rightarrow> system_status \<Rightarrow> exn + system_status" where
  "collect_vxsds vxsds_manager status =
     (case vxsds_manager of
        None \<Rightarrow> Inr status
      | Some (Inl e) \<Rightarrow> Inl e
      | Some (Inr vxsds_health) \<Rightarrow>
          (let status = status\<lparr>components := (components status)\<lparr>comp_vxsds := Some vxsds_health\<rparr>\<rparr>
           in if overall_status vxsds_health \<noteq> ''healthy'' then
                (let status = status\<lparr>alerts := alerts status @
                                       [VxSDSIssues (overall_status vxsds_health)]\<rparr>
                 in if overall_status vxsds_health = ''critical''
                    then Inr (status\<lparr>overall_health := ''critical''\<rparr>)
                    else if overall_health status = ''healthy''
                    then Inr (status\<lparr>overall_health := ''warning''\<rparr>)
                    else Inr status)
              else Inr status))"

text \<open>Lines 371 to 381. The performance data always has the key \<^verbatim>\<open>cpu_usage\<close>.\<close>

definition collect_ovs ::
  "(exn + performance_data) option \<Rightarrow> system_status \<Rightarrow> exn + system_status" where
  "collect_ovs ovs_manager status =
     (case ovs_manager of
        None \<Rightarrow> Inr status
      | Some (Inl e) \<Rightarrow> Inl e
      | Some (Inr network_perf) \<Rightarrow>
          (let status = status\<lparr>components := (components status)\<lparr>comp_ovs := Some network_perf\<rparr>\<rparr>;
               ovs_cpu = get_or (cpu_usage network_perf ''ovs_vswitchd'') 0
           in if ovs_cpu > 80 then
                (let status = status\<lparr>alerts := alerts status @ [HighOVSCpuUsage ovs_cpu]\<rparr>
                 in if overall_health status = ''healthy''
                    then Inr (status\<lparr>overall_health := ''warning''\<rparr>)
                    else Inr status)
              else Inr status))"

text \<open>
  Lines 384 to 401. The list is assigned to the status at the end only. Without metrics or
  capacity the totals default to 0.
\<close>

definition recommend :: "(real \<Rightarrow> real) \<Rightarrow> system_status \<Rightarrow> exn + system_status" where
  "recommend fl status =
     (let recs = (if length (alerts status) = 0 then [SystemNormal] else [ReviewAlerts]);
          capacity_total =
            (case comp_vxsds (components status) of
               None \<Rightarrow> None
             | Some health \<Rightarrow>
                 (case metrics health of
                    None \<Rightarrow> Some (0, 0)
                  | Some s \<Rightarrow> Some (total_gb (capacity s), free_gb (capacity s))))
      in case capacity_total of
           None \<Rightarrow> Inr (status\<lparr>recommendations := recs\<rparr>)
         | Some (total_cap, free_cap) \<Rightarrow>
             if total_cap > 0 then
               (case py_truediv fl free_cap total_cap of
                  Inl e \<Rightarrow> Inl e
                | Inr q \<Rightarrow>
                    (let free_pct = times_100 fl q
                     in Inr (status\<lparr>recommendations :=
                               (if float_less free_pct 15 then recs @ [ConsiderAddingCapacity]
                                else recs)\<rparr>)))
             else Inr (status\<lparr>recommendations := recs\<rparr>))"

text \<open>The handler of lines 403 to 405.\<close>

definition collection_failed :: "system_status \<Rightarrow> exn \<Rightarrow> system_status" where
  "collection_failed status e =
     status\<lparr>overall_health := ''error'', alerts := alerts status @ [StatusCollectionError e]\<rparr>"

text \<open>\<^verbatim>\<open>get_comprehensive_status\<close>, lines 336 to 407.\<close>

definition get_comprehensive_status ::
  "(real \<Rightarrow> real) \<Rightarrow> int \<Rightarrow> (exn + cluster_result) option \<Rightarrow>
   (exn + health_report) option \<Rightarrow> (exn + performance_data) option \<Rightarrow> system_status" where
  "get_comprehensive_status fl now openstack_client vxsds_manager ovs_manager =
     (let status = \<lparr>status_timestamp = now, overall_health = ''healthy'',
                     components = \<lparr>comp_openstack = None, comp_vxsds = None, comp_ovs = None\<rparr>,
                     alerts = [], recommendations = []\<rparr>
      in case collect_openstack openstack_client status of
           Inl e \<Rightarrow> collection_failed status e
         | Inr status1 \<Rightarrow>
             (case collect_vxsds vxsds_manager status1 of
                Inl e \<Rightarrow> collection_failed status1 e
              | Inr status2 \<Rightarrow>
                  (case collect_ovs ovs_manager status2 of
                     Inl e \<Rightarrow> collection_failed status2 e
                   | Inr status3 \<Rightarrow>
                       (case recommend fl status3 of
                          Inl e \<Rightarrow> collection_failed status3 e
                        | Inr status4 \<Rightarrow> status4))))"

text \<open>
  The orchestrator's own wiring: cee\_integration\_example.py imports cee\_network\_utils, so
  its \<^verbatim>\<open>CEEOVSManager\<close> runs in the mode \<open>Imported\<close>.
\<close>

definition orchestrator_status ::
  "(real \<Rightarrow> real) \<Rightarrow> int \<Rightarrow> cluster_result option \<Rightarrow>
   (vxsds_env \<times> CEEVxSDSManager) option \<Rightarrow> switch_env option \<Rightarrow> system_status" where
  "orchestrator_status fl now openstack_client vxsds_manager ovs_manager =
     get_comprehensive_status fl now
       (map_option Inr openstack_client)
       (map_option (\<lambda>(env, m). Inr (fst (monitor_vxsds_health fl env m))) vxsds_manager)
       (map_option (monitor_ovs_performance Imported) ovs_manager)"

subsection \<open>The health-check battery\<close>

record probe_result =
  probe_status :: string
  probe_message :: message

record health_check =
  check_timestamp :: int
  checks :: "string \<rightharpoonup> probe_result"
  passed :: nat
  failed :: nat
  check_warnings :: nat

text \<open>
  The body of the loop of \<^verbatim>\<open>perform_health_check\<close>, lines 430 to 446. A check is its
  name and what the probe function does when called: it returns a result or raises.
\<close>

definition check_body :: "string \<Rightarrow> exn + probe_result \<Rightarrow> health_check \<Rightarrow> health_check" where
  "check_body check_name check_function hc =
     (case check_function of
        Inr result \<Rightarrow>
          (let hc = hc\<lparr>checks := (checks hc)(check_name \<mapsto> result)\<rparr>
           in if probe_status result = ''pass'' then hc\<lparr>passed := passed hc + 1\<rparr>
              else if probe_status result = ''warning''
              then hc\<lparr>check_warnings := check_warnings hc + 1\<rparr>
              else hc\<lparr>failed := failed hc + 1\<rparr>)
      | Inl e \<Rightarrow>
          hc\<lparr>checks := (checks hc)(check_name \<mapsto>
                 \<lparr>probe_status = ''fail'', probe_message = CheckFailedWithException e\<rparr>),
              failed := failed hc + 1\<rparr>)"

text \<open>The loop, line 429; \<open>called\<close> lists the probes invoked so far.\<close>

fun check_loop ::
  "(string \<times> (exn + probe_result)) list \<Rightarrow> health_check \<Rightarrow> string list \<Rightarrow>
   health_check \<times> string list" where
  "check_loop [] hc called = (hc, called)"
| "check_loop ((check_name, check_function) # rest) hc called =
     check_loop rest (check_body check_name check_function hc) (called @ [check_name])"

text \<open>
  \<^verbatim>\<open>perform_health_check\<close>, lines 409 to 448, on what the five probe methods of lines
  450 to 539 do when called.
\<close>

definition perform_health_check ::
  "int \<Rightarrow> (exn + probe_result) \<Rightarrow> (exn + probe_result) \<Rightarrow> (exn + probe_result) \<Rightarrow>
   (exn + probe_result) \<Rightarrow> (exn + probe_result) \<Rightarrow> health_check \<times> string list" where
  "perform_health_check now check_openstack_api check_vxsds_connectivity check_ovs_bridges
     check_network_connectivity check_storage_health =
     check_loop
       [(''openstack_api'', check_openstack_api),
        (''vxsds_connectivity'', check_vxsds_connectivity),
        (''ovs_bridges'', check_ovs_bridges),
        (''network_connectivity'', check_network_connectivity),
        (''storage_health'', check_storage_health)]
       \<lparr>check_timestamp = now, checks = Map.empty, passed = 0, failed = 0, check_warnings = 0\<rparr>
       []"

section \<open>Notions of the statements, and concrete inputs\<close>

text \<open>
  The predicates and functions the theorems below are stated with, and the inputs at
  which they are evaluated.
\<close>

text \<open>An answer that is a value, not an exception.\<close>

definition returns :: "exn + 'a \<Rightarrow> bool" where
  "returns r = (case r of Inl _ \<Rightarrow> False | Inr _ \<Rightarrow> True)"

text \<open>
  The rounding used in the concrete runs below. None of them rounds anything: they divide
  nothing, or the division overflows.
\<close>

definition no_rounding :: "real \<Rightarrow> real" where
  "no_rounding x = x"

definition pool_a :: VxSDSStoragePoolInfo where
  "pool_a = \<lparr>pool_id = ''1'', pool_name = ''pool1'', pool_protection_domain = ''pd1'',
     media_type = ''SSD'', capacity_gb = 10, free_capacity_gb = 20, num_volumes = 0,
     spare_percentage = 10\<rparr>"

text \<open>A gateway whose only pool reports more free capacity than capacity.\<close>

definition inconsistent_env :: vxsds_env where
  "inconsistent_env = \<lparr>time_health = 1000, time_cache = 1000, time_summary = 1000,
     get_protection_domains = Inr [''pd1''], get_storage_pools = Inr [pool_a],
     get_volumes = Inr [], get_sdc_nodes = Inr [], get_sds_nodes = Inr []\<rparr>"

text \<open>Two calls 100 time units apart; between them a volume was created.\<close>

definition node_up :: "string \<Rightarrow> VxSDSNodeInfo" where
  "node_up st = \<lparr>node_id = ''n1'', node_name = ''node1'', ip_addresses = [], role = ''SDS'',
     state = st, version = []\<rparr>"

definition volume_a :: VxSDSVolumeInfo where
  "volume_a = \<lparr>volume_id = ''v1'', volume_name = ''vol1'', size_gb = 5, storage_pool = ''1'',
     volume_protection_domain = [], volume_type = ''ThinProvisioned'', creation_time = None,
     mapped_sdcs = Some []\<rparr>"

definition first_env :: vxsds_env where
  "first_env = \<lparr>time_health = 1000, time_cache = 1000, time_summary = 1000,
     get_protection_domains = Inr [''pd1''], get_storage_pools = Inr [],
     get_volumes = Inr [], get_sdc_nodes = Inr [node_up ''Connected''],
     get_sds_nodes = Inr [node_up ''Normal'']\<rparr>"

definition later_env :: vxsds_env where
  "later_env = first_env\<lparr>time_health := 1100, time_cache := 1100, time_summary := 1100,
     get_volumes := Inr [volume_a]\<rparr>"

definition after_first :: CEEVxSDSManager where
  "after_first = snd (get_cee_storage_summary first_env CEEVxSDSManager_init)"

text \<open>
  A gateway without pools and without nodes; one whose volume listing has a malformed
  body; and one whose only pool has capacity 1 and a free capacity of \<open>2^1024\<close>.
\<close>

definition no_nodes_env :: vxsds_env where
  "no_nodes_env = first_env\<lparr>get_sdc_nodes := Inr [], get_sds_nodes := Inr []\<rparr>"

definition unreadable_env :: vxsds_env where
  "unreadable_env = first_env\<lparr>get_volumes := Inl (AdapterError ''malformed body'')\<rparr>"

definition huge_pool :: VxSDSStoragePoolInfo where
  "huge_pool = \<lparr>pool_id = ''1'', pool_name = ''pool1'', pool_protection_domain = ''pd1'',
     media_type = ''SSD'', capacity_gb = 1, free_capacity_gb = 2 ^ 1024, num_volumes = 0,
     spare_percentage = 10\<rparr>"

definition overflow_env :: vxsds_env where
  "overflow_env = first_env\<lparr>get_storage_pools := Inr [huge_pool]\<rparr>"

text \<open>A switch without bridges whose forwarding daemon uses 5 percent CPU.\<close>

definition no_bridges :: topology where
  "no_bridges = \<lparr>topo_bridges = Map.empty, tunnels = [], node_type = Some ''unknown''\<rparr>"

definition quiet_switch :: switch_env where
  "quiet_switch = \<lparr>time_perf = 1000, list_br = (True, ['''']), get_bridge_info = (\<lambda>_. Inr None),
     get_port_statistics = (\<lambda>_ _. []), vswitchd_cpu = Some 5, vswitchd_memory = Some 1\<rparr>"


text \<open>
  A connection on which every call succeeds, except that creating the server named
  \<open>app-bad-vol\<close> fails; and the same connection with a project service that refuses.
\<close>

definition working_conn :: os_env where
  "working_conn =
     \<lparr>create_project = (\<lambda>n d. Inr (''project-'' @ n)),
      create_user = (\<lambda>n p pr. Inr (''user-'' @ n)),
      find_role = (\<lambda>n. Inr (Some ''role-member'')),
      assign_project_role_to_user = (\<lambda>_ _ _. Inr ()),
      create_network = (\<lambda>n t. Inr (''net-'' @ n)),
      create_subnet = (\<lambda>net n c. Inr (''subnet-'' @ n)),
      create_router = (\<lambda>n p. Inr (''router-'' @ n)),
      add_interface_to_router = (\<lambda>_ _. Inr ()),
      create_security_group = (\<lambda>n p. Inr (''sg-'' @ n)),
      create_security_group_rule = (\<lambda>_ _ _ _. Inr ()),
      network_ports = (\<lambda>s. Inr [''port-'' @ s]),
      create_vm_with_vxsds_storage =
        (\<lambda>r. if vm_name r = ''app-bad-vol'' then Inl (StrExn ResourcesNotFound)
             else Inr (''server-'' @ vm_name r, ''volume-'' @ vm_name r))\<rparr>"



text \<open>
  What the creation call of a named spec yields: the volume, or the server, of a success
  answer, and nothing for an error answer. \<open>ports_listed\<close> says that listing the ports
  of the server of a spec with a QoS entry does not raise.
\<close>

definition created_volume :: "os_env \<Rightarrow> string \<Rightarrow> volume_config \<Rightarrow> handle option" where
  "created_volume conn sname v =
     (case create_vm_with_vxsds_storage conn (volume_request sname (the (vc_name v)) v) of
        Inr (server, volume) \<Rightarrow> Some volume
      | Inl _ \<Rightarrow> None)"

definition created_server :: "os_env \<Rightarrow> string \<Rightarrow> instance_config \<Rightarrow> handle option" where
  "created_server conn sname i =
     (case create_vm_with_vxsds_storage conn (instance_request sname (the (ic_name i)) i) of
        Inr (server, volume) \<Rightarrow> Some server
      | Inl _ \<Rightarrow> None)"

definition ports_listed :: "os_env \<Rightarrow> string \<Rightarrow> instance_config \<Rightarrow> bool" where
  "ports_listed conn sname i =
     (case (ic_qos i, created_server conn sname i) of
        (Some qos, Some server) \<Rightarrow>
          (case network_ports conn server of Inr _ \<Rightarrow> True | Inl _ \<Rightarrow> False)
      | _ \<Rightarrow> True)"

fun is_creation_call :: "os_call \<Rightarrow> bool" where
  "is_creation_call (CreateVmWithVxsdsStorage _) = True"
| "is_creation_call _ = False"

definition bad_volume :: volume_config where
  "bad_volume = \<lparr>vc_name = Some ''bad'', vc_flavor = None, vc_size_gb = None, vc_type = None\<rparr>"

definition data_volume :: volume_config where
  "data_volume = \<lparr>vc_name = Some ''data'', vc_flavor = None, vc_size_gb = Some 100,
     vc_type = None\<rparr>"

definition nameless_volume :: volume_config where
  "nameless_volume = \<lparr>vc_name = None, vc_flavor = None, vc_size_gb = Some 1, vc_type = None\<rparr>"

definition web_instance :: instance_config where
  "web_instance = \<lparr>ic_name = Some ''web-01'', ic_image = None, ic_flavor = None,
     ic_network = None, ic_disk_size_gb = None, ic_volume_type = None,
     ic_qos = Some \<lparr>max_kbps = Some 100000, min_kbps = Some 10000\<rparr>\<rparr>"

definition example_stack :: stack_config where
  "example_stack = \<lparr>instances = [web_instance], volume_specs = [bad_volume, data_volume]\<rparr>"

text \<open>
  The entry a probe leaves in the report, and the counter it bumps: a raising probe leaves
  the fail entry of lines 442 to 445 and counts as failed.
\<close>

definition probe_entry :: "exn + probe_result \<Rightarrow> probe_result" where
  "probe_entry p =
     (case p of
        Inl e \<Rightarrow> \<lparr>probe_status = ''fail'', probe_message = CheckFailedWithException e\<rparr>
      | Inr result \<Rightarrow> result)"

definition counts_passed :: "exn + probe_result \<Rightarrow> bool" where
  "counts_passed p = (case p of Inl e \<Rightarrow> False | Inr result \<Rightarrow> probe_status result = ''pass'')"

definition counts_warning :: "exn + probe_result \<Rightarrow> bool" where
  "counts_warning p =
     (case p of Inl e \<Rightarrow> False
      | Inr result \<Rightarrow> probe_status result \<noteq> ''pass'' \<and> probe_status result = ''warning'')"

definition counts_failed :: "exn + probe_result \<Rightarrow> bool" where
  "counts_failed p =
     (case p of Inl e \<Rightarrow> True
      | Inr result \<Rightarrow> probe_status result \<noteq> ''pass'' \<and> probe_status result \<noteq> ''warning'')"

definition raising_probe :: "exn + probe_result" where
  "raising_probe = Inl (AdapterError ''connection reset'')"

definition passing_probe :: "exn + probe_result" where
  "passing_probe = Inr \<lparr>probe_status = ''pass'', probe_message = Text ''ok''\<rparr>"

text \<open>
  The spec's merge, in its words: the overall health is the worst of the subsystem
  verdicts, critical being worse than warning and warning worse than healthy.
\<close>

definition verdict_rank :: "string \<Rightarrow> nat" where
  "verdict_rank v = (if v = ''critical'' then 2 else if v = ''warning'' then 1 else 0)"

definition worst_of :: "string \<Rightarrow> string \<Rightarrow> string" where
  "worst_of a b = (if verdict_rank a < verdict_rank b then b else a)"

text \<open>
  The verdict the reporter reads off each subsystem's answer, and the one alert it adds for
  it: an OpenStack error dict counts as warning; a storage report counts as its status
  when that is healthy or critical and as warning otherwise; a forwarding-daemon CPU above
  80 counts as warning.
\<close>

definition openstack_verdict :: "cluster_result option \<Rightarrow> string" where
  "openstack_verdict c = (case c of Some (Inl _) \<Rightarrow> ''warning'' | _ \<Rightarrow> ''healthy'')"

definition vxsds_verdict :: "health_report option \<Rightarrow> string" where
  "vxsds_verdict c =
     (case c of
        None \<Rightarrow> ''healthy''
      | Some r \<Rightarrow> if overall_status r = ''critical'' then ''critical''
                  else if overall_status r = ''healthy'' then ''healthy'' else ''warning'')"

definition ovs_verdict :: "performance_data option \<Rightarrow> string" where
  "ovs_verdict c =
     (case c of
        None \<Rightarrow> ''healthy''
      | Some p \<Rightarrow> if get_or (cpu_usage p ''ovs_vswitchd'') 0 > 80 then ''warning'' else ''healthy'')"

definition subsystem_alerts ::
  "cluster_result option \<Rightarrow> health_report option \<Rightarrow> performance_data option \<Rightarrow> message list" where
  "subsystem_alerts os vx ovs =
     (case os of Some (Inl _) \<Rightarrow> [OpenStackClusterIssues] | _ \<Rightarrow> []) @
     (case vx of
        None \<Rightarrow> []
      | Some r \<Rightarrow> if overall_status r \<noteq> ''healthy'' then [VxSDSIssues (overall_status r)] else []) @
     (case ovs of
        None \<Rightarrow> []
      | Some p \<Rightarrow> if get_or (cpu_usage p ''ovs_vswitchd'') 0 > 80
                  then [HighOVSCpuUsage (get_or (cpu_usage p ''ovs_vswitchd'') 0)] else [])"

text \<open>
  A component whose monitoring method raises, and what a component's method returned (if
  there is a component and its method returned).
\<close>

definition raises :: "(exn + 'a) option \<Rightarrow> bool" where
  "raises c = (case c of Some (Inl _) \<Rightarrow> True | _ \<Rightarrow> False)"

definition returned :: "(exn + 'a) option \<Rightarrow> 'a option" where
  "returned c = (case c of Some (Inr x) \<Rightarrow> Some x | _ \<Rightarrow> None)"

text \<open>The alert that the handler of lines 403 to 405 adds for a method that raised.\<close>

definition collection_alert :: "(exn + 'a) option \<Rightarrow> message list" where
  "collection_alert c = (case c of Some (Inl e) \<Rightarrow> [StatusCollectionError e] | _ \<Rightarrow> [])"

text \<open>
  The division of line 397 overflows: the storage report carries a summary with a positive
  total and a quotient of free by total that is too large for a float.
\<close>

definition capacity_overflows :: "health_report option \<Rightarrow> bool" where
  "capacity_overflows vx =
     (case vx of
        None \<Rightarrow> False
      | Some r \<Rightarrow>
          (case metrics r of
             None \<Rightarrow> False
           | Some s \<Rightarrow>
               total_gb (capacity s) > 0 \<and>
               double_overflow (real_of_int (free_gb (capacity s)) /
                                real_of_int (total_gb (capacity s)))))"

definition critical_report :: health_report where
  "critical_report = fst (monitor_vxsds_health no_rounding no_nodes_env CEEVxSDSManager_init)"

definition error_report :: health_report where
  "error_report = fst (monitor_vxsds_health no_rounding unreadable_env CEEVxSDSManager_init)"

definition overflow_report :: health_report where
  "overflow_report = fst (monitor_vxsds_health no_rounding overflow_env CEEVxSDSManager_init)"

definition busy_perf :: performance_data where
  "busy_perf = \<lparr>perf_timestamp = 1000, perf_bridges = Map.empty,
     cpu_usage = [''ovs_vswitchd'' \<mapsto> 95], memory_usage = Map.empty\<rparr>"

definition warning_report :: health_report where
  "warning_report = \<lparr>report_timestamp = 1000, overall_status = ''warning'', issues = [],
     warnings = [SdsNotAllOnline 2 3], metrics = None\<rparr>"

section \<open>Properties\<close>

subsection \<open>The storage summary\<close>

lemma analyse_pools_capacity:
  "analyse_pools ps (d, c) = (d', c') \<Longrightarrow>
     total_gb c' = total_gb c + sum_list (map capacity_gb ps) \<and>
     free_gb c' = free_gb c + sum_list (map free_capacity_gb ps) \<and>
     used_gb c' = used_gb c"
  by (induction ps arbitrary: d c) auto

lemma update_cache_returns:
  "returns (fst (update_cache env m)) \<longleftrightarrow>
     time_cache env - cache_time m \<le> cache_ttl m \<or>
     returns (get_protection_domains env) \<and> returns (get_storage_pools env)"
  by (auto simp: update_cache_def returns_def Let_def split: sum.splits)

lemma get_cee_storage_summary_returns:
  "returns (fst (get_cee_storage_summary env m)) \<longleftrightarrow>
     returns (fst (update_cache env m)) \<and>
     returns (get_volumes env) \<and> returns (get_sdc_nodes env) \<and> returns (get_sds_nodes env)"
  by (auto simp: get_cee_storage_summary_def returns_def Let_def split: sum.splits prod.splits)

text \<open>
  C1, as the code has it. The builder returns a summary exactly when the adapter reads it
  makes return: the two reads of the cache refresh, if the cache is stale, and the reads of
  the volumes and of the two node lists; what the pools report plays no part in that, so
  inconsistent capacities raise nothing. Every summary it returns has
  \<open>used_gb = total_gb - free_gb\<close>, where the two totals are the sums over the cached
  pools. There is no clamp: \<open>used_gb\<close> is negative exactly when the summed free capacity
  exceeds the summed capacity.
\<close>

theorem used_gb_is_total_minus_free:
  "(returns (fst (get_cee_storage_summary env m)) \<longleftrightarrow>
      (time_cache env - cache_time m \<le> cache_ttl m \<or>
       returns (get_protection_domains env) \<and> returns (get_storage_pools env)) \<and>
      returns (get_volumes env) \<and> returns (get_sdc_nodes env) \<and> returns (get_sds_nodes env)) \<and>
   (\<forall>s m'. get_cee_storage_summary env m = (Inr s, m') \<longrightarrow>
      used_gb (capacity s) = total_gb (capacity s) - free_gb (capacity s) \<and>
      total_gb (capacity s) = sum_list (map capacity_gb (or_empty (storage_pools_cache m'))) \<and>
      free_gb (capacity s) = sum_list (map free_capacity_gb (or_empty (storage_pools_cache m'))) \<and>
      (used_gb (capacity s) < 0 \<longleftrightarrow> total_gb (capacity s) < free_gb (capacity s)))"
proof (intro conjI allI impI)
  show "returns (fst (get_cee_storage_summary env m)) \<longleftrightarrow>
      (time_cache env - cache_time m \<le> cache_ttl m \<or>
       returns (get_protection_domains env) \<and> returns (get_storage_pools env)) \<and>
      returns (get_volumes env) \<and> returns (get_sdc_nodes env) \<and> returns (get_sds_nodes env)"
    unfolding get_cee_storage_summary_returns update_cache_returns by blast
next
  fix s m'
  assume a: "get_cee_storage_summary env m = (Inr s, m')"
  obtain m1 where u: "update_cache env m = (Inr (), m1)"
    using a by (auto simp: get_cee_storage_summary_def split: prod.splits sum.splits)
  obtain pools cap where p: "analyse_pools (or_empty (storage_pools_cache m1))
      (Map.empty, \<lparr>total_gb = 0, free_gb = 0, used_gb = 0\<rparr>) = (pools, cap)"
    by (cases "analyse_pools (or_empty (storage_pools_cache m1))
      (Map.empty, \<lparr>total_gb = 0, free_gb = 0, used_gb = 0\<rparr>)")
  have c: "capacity s = cap\<lparr>used_gb := total_gb cap - free_gb cap\<rparr>"
    and m: "storage_pools_cache m' = storage_pools_cache m1"
    using a u p
    by (auto simp: get_cee_storage_summary_def Let_def ask_def split: sum.splits)
  from analyse_pools_capacity[OF p] c m
  show "used_gb (capacity s) = total_gb (capacity s) - free_gb (capacity s)"
    and "total_gb (capacity s) = sum_list (map capacity_gb (or_empty (storage_pools_cache m')))"
    and "free_gb (capacity s) = sum_list (map free_capacity_gb (or_empty (storage_pools_cache m')))"
    and "(used_gb (capacity s) < 0) = (total_gb (capacity s) < free_gb (capacity s))"
    by auto
qed

lemma inconsistent_call_value:
  "get_cee_storage_summary inconsistent_env CEEVxSDSManager_init =
     (Inr \<lparr>summary_timestamp = 1000, protection_domains = 1,
            storage_pools = [''pool1'' \<mapsto> \<lparr>entry_capacity_gb = 10, entry_free_capacity_gb = 20,
               entry_num_volumes = 0, entry_media_type = ''SSD''\<rparr>],
            volumes = \<lparr>total_count = 0, total_size_gb = 0, by_type = Map.empty, mapped_count = 0\<rparr>,
            nodes = \<lparr>sdc_count = 0, sds_count = 0, sdc_online = 0, sds_online = 0\<rparr>,
            capacity = \<lparr>total_gb = 10, free_gb = 20, used_gb = - 10\<rparr>\<rparr>,
      \<lparr>vxsds_calls = [GetProtectionDomains, GetStoragePools, GetVolumes, GetSdcNodes, GetSdsNodes],
       protection_domains_cache = Some [''pd1''], storage_pools_cache = Some [pool_a],
       cache_time = 1000, cache_ttl = 300\<rparr>)"
  by (simp add: get_cee_storage_summary_def update_cache_def ask_def inconsistent_env_def
      CEEVxSDSManager_init_def pool_a_def or_empty_def Let_def)

theorem used_gb_is_total_minus_free_witness:
  "returns (get_protection_domains inconsistent_env) \<and>
   returns (get_storage_pools inconsistent_env) \<and>
   returns (get_volumes inconsistent_env) \<and>
   returns (get_sdc_nodes inconsistent_env) \<and>
   returns (get_sds_nodes inconsistent_env) \<and>
   returns (fst (get_cee_storage_summary inconsistent_env CEEVxSDSManager_init)) \<and>
   used_gb (capacity (projr (fst (get_cee_storage_summary inconsistent_env CEEVxSDSManager_init))))
     = sum_list (map capacity_gb [pool_a]) - sum_list (map free_capacity_gb [pool_a]) \<and>
   used_gb (capacity (projr (fst (get_cee_storage_summary inconsistent_env CEEVxSDSManager_init))))
     < 0"
proof -
  have r: "returns (get_protection_domains inconsistent_env)"
    "returns (get_storage_pools inconsistent_env)"
    "returns (get_volumes inconsistent_env)"
    "returns (get_sdc_nodes inconsistent_env)"
    "returns (get_sds_nodes inconsistent_env)"
    by (simp_all add: inconsistent_env_def returns_def)
  note t = used_gb_is_total_minus_free[of inconsistent_env CEEVxSDSManager_init]
  from t r have 1: "returns (fst (get_cee_storage_summary inconsistent_env CEEVxSDSManager_init))"
    by blast
  have c: "or_empty (storage_pools_cache
      (snd (get_cee_storage_summary inconsistent_env CEEVxSDSManager_init))) = [pool_a]"
    by (simp add: inconsistent_call_value or_empty_def)
  have h: "get_cee_storage_summary inconsistent_env CEEVxSDSManager_init =
     (Inr (projr (fst (get_cee_storage_summary inconsistent_env CEEVxSDSManager_init))),
      snd (get_cee_storage_summary inconsistent_env CEEVxSDSManager_init))"
    by (simp add: inconsistent_call_value)
  from t h have 2: "used_gb (capacity (projr (fst (get_cee_storage_summary inconsistent_env
        CEEVxSDSManager_init)))) =
      sum_list (map capacity_gb [pool_a]) - sum_list (map free_capacity_gb [pool_a])"
    unfolding c[symmetric] by metis
  have 3: "sum_list (map capacity_gb [pool_a]) - sum_list (map free_capacity_gb [pool_a]) < 0"
    by (simp add: pool_a_def)
  from r 1 2 3 show ?thesis by simp
qed

text \<open>
  C1 as stated fails: with one pool of capacity 10 and free capacity 20 the summary has
  \<open>used_gb = -10\<close>, not 0.
\<close>

theorem used_gb_negative_counterexample:
  "map_sum id capacity (fst (get_cee_storage_summary inconsistent_env CEEVxSDSManager_init))
     = Inr \<lparr>total_gb = 10, free_gb = 20, used_gb = - 10\<rparr>"
  by (simp add: inconsistent_call_value)

lemma analyse_volumes_totals:
  "total_count (analyse_volumes vols vs) = total_count vs \<and>
   total_size_gb (analyse_volumes vols vs) = total_size_gb vs"
  by (induction vols arbitrary: vs) (auto simp: Let_def)

lemma summary_from_cache:
  assumes "get_cee_storage_summary env m = (Inr s, m')"
  shows "protection_domains s = length (or_empty (protection_domains_cache m'))"
    and "storage_pools s = fst (analyse_pools (or_empty (storage_pools_cache m'))
            (Map.empty, \<lparr>total_gb = 0, free_gb = 0, used_gb = 0\<rparr>))"
    and "capacity s = (let cap = snd (analyse_pools (or_empty (storage_pools_cache m'))
            (Map.empty, \<lparr>total_gb = 0, free_gb = 0, used_gb = 0\<rparr>))
          in cap\<lparr>used_gb := total_gb cap - free_gb cap\<rparr>)"
    and "summary_timestamp s = time_summary env"
  using assms
  by (auto simp: get_cee_storage_summary_def Let_def ask_def split: sum.splits prod.splits)

lemma summary_fresh_entries:
  assumes "get_cee_storage_summary env m = (Inr s, m')"
  shows "\<exists>vols sdc_nodes sds_nodes.
     get_volumes env = Inr vols \<and> get_sdc_nodes env = Inr sdc_nodes \<and>
     get_sds_nodes env = Inr sds_nodes \<and>
     volumes s = analyse_volumes vols
       \<lparr>total_count = length vols, total_size_gb = sum_list (map size_gb vols),
        by_type = Map.empty, mapped_count = 0\<rparr> \<and>
     nodes s = \<lparr>sdc_count = length sdc_nodes, sds_count = length sds_nodes,
        sdc_online = length (filter (\<lambda>n. state n = ''Connected'') sdc_nodes),
        sds_online = length (filter (\<lambda>n. state n = ''Normal'') sds_nodes)\<rparr>"
  using assms
  by (auto simp: get_cee_storage_summary_def Let_def ask_def split: sum.splits prod.splits)

lemma update_cache_within_ttl:
  "time_cache env - cache_time m \<le> cache_ttl m \<Longrightarrow> update_cache env m = (Inr (), m)"
  by (simp add: update_cache_def Let_def)

lemma summary_calls_within_ttl:
  assumes "time_cache env - cache_time m \<le> cache_ttl m"
    and "get_cee_storage_summary env m = (r, m')"
  shows "protection_domains_cache m' = protection_domains_cache m"
    and "storage_pools_cache m' = storage_pools_cache m"
    and "cache_time m' = cache_time m" and "cache_ttl m' = cache_ttl m"
    and "\<exists>cs. vxsds_calls m' = vxsds_calls m @ GetVolumes # cs \<and> set cs \<subseteq> {GetSdcNodes, GetSdsNodes}"
    and "r = Inr s \<Longrightarrow> vxsds_calls m' = vxsds_calls m @ [GetVolumes, GetSdcNodes, GetSdsNodes]"
  using assms(2) update_cache_within_ttl[OF assms(1)]
  by (auto simp: get_cee_storage_summary_def Let_def ask_def split: sum.splits prod.splits)

lemma refreshed_cache_time:
  assumes "get_cee_storage_summary env m = (Inr s, m')"
  shows "cache_ttl m' = cache_ttl m"
    and "cache_time m' = (if time_cache env - cache_time m > cache_ttl m then time_cache env
                          else cache_time m)"
  using assms
  by (auto simp: get_cee_storage_summary_def update_cache_def Let_def ask_def
      split: sum.splits prod.splits if_splits)

text \<open>
  Outside the window the next call does refresh: its first request is for the protection
  domains, however recent the previous call was.
\<close>

lemma stale_cache_is_refreshed:
  assumes "time_cache env - cache_time m > cache_ttl m"
  shows "\<exists>cs. vxsds_calls (snd (get_cee_storage_summary env m)) =
            vxsds_calls m @ GetProtectionDomains # cs"
  using assms
  by (auto simp: get_cee_storage_summary_def update_cache_def Let_def ask_def
      split: sum.splits prod.splits)

text \<open>
  C3, as the code has it. The cache of \<open>update_cache\<close> holds the protection domains
  and the pools only, and its window runs from the clock reading of the last refresh
  (\<open>cache_time\<close>; the reading of the first call, if that call refreshed). A second call
  within this window asks the client for neither, leaves the cache as it is, and returns
  the same domain count, pools and capacity; it does ask for the volumes and (unless that
  raises) for the SDC and SDS nodes again, stamps the summary with its own clock reading,
  and its volumes and nodes entries are computed, whole, from the lists it was just given.
\<close>

theorem second_call_within_ttl:
  assumes first: "get_cee_storage_summary e1 m = (Inr s1, m1)"
    and within: "time_cache e2 - cache_time m1 \<le> cache_ttl m1"
    and second: "get_cee_storage_summary e2 m1 = (r2, m2)"
  shows "(\<exists>cs. vxsds_calls m2 = vxsds_calls m1 @ GetVolumes # cs \<and>
               set cs \<subseteq> {GetSdcNodes, GetSdsNodes}) \<and>
         protection_domains_cache m2 = protection_domains_cache m1 \<and>
         storage_pools_cache m2 = storage_pools_cache m1 \<and>
         cache_time m2 = cache_time m1 \<and>
         cache_ttl m1 = cache_ttl m \<and>
         cache_time m1 = (if time_cache e1 - cache_time m > cache_ttl m then time_cache e1
                          else cache_time m) \<and>
         (\<forall>s2. r2 = Inr s2 \<longrightarrow>
            vxsds_calls m2 = vxsds_calls m1 @ [GetVolumes, GetSdcNodes, GetSdsNodes] \<and>
            protection_domains s2 = protection_domains s1 \<and>
            storage_pools s2 = storage_pools s1 \<and>
            capacity s2 = capacity s1 \<and>
            summary_timestamp s2 = time_summary e2 \<and>
            (\<exists>vols sdc_nodes sds_nodes.
               get_volumes e2 = Inr vols \<and> get_sdc_nodes e2 = Inr sdc_nodes \<and>
               get_sds_nodes e2 = Inr sds_nodes \<and>
               volumes s2 = analyse_volumes vols
                 \<lparr>total_count = length vols, total_size_gb = sum_list (map size_gb vols),
                  by_type = Map.empty, mapped_count = 0\<rparr> \<and>
               total_count (volumes s2) = length vols \<and>
               nodes s2 = \<lparr>sdc_count = length sdc_nodes, sds_count = length sds_nodes,
                  sdc_online = length (filter (\<lambda>n. state n = ''Connected'') sdc_nodes),
                  sds_online = length (filter (\<lambda>n. state n = ''Normal'') sds_nodes)\<rparr>))"
proof -
  note w = summary_calls_within_ttl[OF within second]
  note c = refreshed_cache_time[OF first]
  have "protection_domains s2 = protection_domains s1 \<and> storage_pools s2 = storage_pools s1 \<and>
        capacity s2 = capacity s1 \<and> summary_timestamp s2 = time_summary e2" if "r2 = Inr s2" for s2
    using summary_from_cache[OF first] summary_from_cache[OF second[unfolded that]]
      w(1,2) by simp
  moreover have "\<exists>vols sdc_nodes sds_nodes.
               get_volumes e2 = Inr vols \<and> get_sdc_nodes e2 = Inr sdc_nodes \<and>
               get_sds_nodes e2 = Inr sds_nodes \<and>
               volumes s2 = analyse_volumes vols
                 \<lparr>total_count = length vols, total_size_gb = sum_list (map size_gb vols),
                  by_type = Map.empty, mapped_count = 0\<rparr> \<and>
               total_count (volumes s2) = length vols \<and>
               nodes s2 = \<lparr>sdc_count = length sdc_nodes, sds_count = length sds_nodes,
                  sdc_online = length (filter (\<lambda>n. state n = ''Connected'') sdc_nodes),
                  sds_online = length (filter (\<lambda>n. state n = ''Normal'') sds_nodes)\<rparr>"
    if "r2 = Inr s2" for s2
    using summary_fresh_entries[OF second[unfolded that]]
    by (auto simp: analyse_volumes_totals)
  ultimately show ?thesis using w c by blast
qed

lemma first_call_value:
  "get_cee_storage_summary first_env CEEVxSDSManager_init =
     (Inr \<lparr>summary_timestamp = 1000, protection_domains = 1, storage_pools = Map.empty,
            volumes = \<lparr>total_count = 0, total_size_gb = 0, by_type = Map.empty, mapped_count = 0\<rparr>,
            nodes = \<lparr>sdc_count = 1, sds_count = 1, sdc_online = 1, sds_online = 1\<rparr>,
            capacity = \<lparr>total_gb = 0, free_gb = 0, used_gb = 0\<rparr>\<rparr>,
      \<lparr>vxsds_calls = [GetProtectionDomains, GetStoragePools, GetVolumes, GetSdcNodes, GetSdsNodes],
       protection_domains_cache = Some [''pd1''], storage_pools_cache = Some [],
       cache_time = 1000, cache_ttl = 300\<rparr>)"
  by (simp add: get_cee_storage_summary_def update_cache_def ask_def first_env_def
      CEEVxSDSManager_init_def or_empty_def node_up_def Let_def)

lemma after_first_value:
  "after_first = \<lparr>vxsds_calls = [GetProtectionDomains, GetStoragePools, GetVolumes, GetSdcNodes, GetSdsNodes],
       protection_domains_cache = Some [''pd1''], storage_pools_cache = Some [],
       cache_time = 1000, cache_ttl = 300\<rparr>"
  by (simp add: after_first_def first_call_value)

lemma second_call_value:
  "get_cee_storage_summary later_env after_first =
     (Inr \<lparr>summary_timestamp = 1100, protection_domains = 1, storage_pools = Map.empty,
            volumes = \<lparr>total_count = 1, total_size_gb = 5,
               by_type = [''ThinProvisioned'' \<mapsto> \<lparr>type_count = 1, type_size_gb = 5\<rparr>],
               mapped_count = 0\<rparr>,
            nodes = \<lparr>sdc_count = 1, sds_count = 1, sdc_online = 1, sds_online = 1\<rparr>,
            capacity = \<lparr>total_gb = 0, free_gb = 0, used_gb = 0\<rparr>\<rparr>,
      \<lparr>vxsds_calls = [GetProtectionDomains, GetStoragePools, GetVolumes, GetSdcNodes, GetSdsNodes,
          GetVolumes, GetSdcNodes, GetSdsNodes],
       protection_domains_cache = Some [''pd1''], storage_pools_cache = Some [],
       cache_time = 1000, cache_ttl = 300\<rparr>)"
  by (simp add: get_cee_storage_summary_def update_cache_def ask_def later_env_def first_env_def
      after_first_value or_empty_def node_up_def volume_a_def truthy_list_def Let_def)

text \<open>
  C3 as stated fails: the second call, 100 time units after the first, makes three adapter
  calls and returns a different summary.
\<close>

theorem second_call_counterexample:
  "time_cache later_env - cache_time after_first \<le> cache_ttl after_first \<and>
   vxsds_calls (snd (get_cee_storage_summary later_env after_first)) =
     vxsds_calls after_first @ [GetVolumes, GetSdcNodes, GetSdsNodes] \<and>
   fst (get_cee_storage_summary later_env after_first) \<noteq>
     fst (get_cee_storage_summary first_env CEEVxSDSManager_init)"
  by (simp add: second_call_value first_call_value) (simp add: after_first_value later_env_def first_env_def)

theorem second_call_within_ttl_witness:
  "get_cee_storage_summary first_env CEEVxSDSManager_init =
      (Inr (projr (fst (get_cee_storage_summary first_env CEEVxSDSManager_init))), after_first) \<and>
   time_cache later_env - cache_time after_first \<le> cache_ttl after_first \<and>
   vxsds_calls (snd (get_cee_storage_summary later_env after_first)) =
     vxsds_calls after_first @ [GetVolumes, GetSdcNodes, GetSdsNodes] \<and>
   capacity (projr (fst (get_cee_storage_summary later_env after_first))) =
     capacity (projr (fst (get_cee_storage_summary first_env CEEVxSDSManager_init))) \<and>
   volumes (projr (fst (get_cee_storage_summary later_env after_first))) =
     analyse_volumes [volume_a]
       \<lparr>total_count = 1, total_size_gb = 5, by_type = Map.empty, mapped_count = 0\<rparr> \<and>
   cache_time after_first = time_cache first_env"
proof -
  have h1: "get_cee_storage_summary first_env CEEVxSDSManager_init =
      (Inr (projr (fst (get_cee_storage_summary first_env CEEVxSDSManager_init))), after_first)"
    by (simp add: first_call_value after_first_value)
  have h2: "time_cache later_env - cache_time after_first \<le> cache_ttl after_first"
    by (simp add: after_first_value later_env_def first_env_def)
  have h3: "get_cee_storage_summary later_env after_first =
      (Inr (projr (fst (get_cee_storage_summary later_env after_first))),
       snd (get_cee_storage_summary later_env after_first))"
    by (simp add: second_call_value)
  have v: "get_volumes later_env = Inr [volume_a]"
    by (simp add: later_env_def)
  have s: "size_gb volume_a = 5" by (simp add: volume_a_def)
  have t: "time_cache first_env - cache_time CEEVxSDSManager_init > cache_ttl CEEVxSDSManager_init"
    by (simp add: first_env_def CEEVxSDSManager_init_def)
  from second_call_within_ttl[OF h1 h2 h3] v s t h1 h2 show ?thesis by auto
qed

subsection \<open>The classifiers\<close>

text \<open>
  The checks raise only when the division of line 705 overflows: the total is positive and
  the quotient of free by total is too large for a float.
\<close>

lemma health_checks_raises:
  "health_checks fl s = Inl e \<longleftrightarrow>
     total_gb (capacity s) > 0 \<and>
     double_overflow (real_of_int (free_gb (capacity s)) / real_of_int (total_gb (capacity s))) \<and>
     e = OverflowError"
  by (auto simp: health_checks_def py_truediv_def Let_def split: prod.splits)

lemma health_checks_zero_total:
  assumes "total_gb (capacity s) = 0"
  shows "health_checks fl s =
     Inr ((if sdc_count (nodes s) = 0 then [NoSdcNodes] else []) @
          (if sds_count (nodes s) = 0 then [NoSdsNodes] else []),
          (if sdc_count (nodes s) \<noteq> 0 \<and> sdc_online (nodes s) < sdc_count (nodes s)
           then [SdcNotAllOnline (sdc_online (nodes s)) (sdc_count (nodes s))] else []) @
          (if sds_count (nodes s) \<noteq> 0 \<and> sds_online (nodes s) < sds_count (nodes s)
           then [SdsNotAllOnline (sds_online (nodes s)) (sds_count (nodes s))] else []))"
  using assms by (simp add: health_checks_def Let_def)

lemma monitor_vxsds_health_returned:
  assumes "get_cee_storage_summary env m = (Inr s, m')" and "health_checks fl s = Inr (i, w)"
  shows "monitor_vxsds_health fl env m =
     (\<lparr>report_timestamp = time_health env,
       overall_status = (if i \<noteq> [] then ''critical'' else if w \<noteq> [] then ''warning''
                         else ''healthy''),
       issues = i, warnings = w, metrics = Some s\<rparr>, m')"
  using assms by (simp add: monitor_vxsds_health_def Let_def)

lemma monitor_vxsds_health_raised:
  assumes "get_cee_storage_summary env m = (Inl e, m')"
  shows "monitor_vxsds_health fl env m =
     (\<lparr>report_timestamp = time_health env, overall_status = ''error'',
       issues = [MonitoringError e], warnings = [], metrics = None\<rparr>, m')"
  using assms by (simp add: monitor_vxsds_health_def Let_def)

lemma monitor_vxsds_health_overflowed:
  assumes "get_cee_storage_summary env m = (Inr s, m')" and "health_checks fl s = Inl e"
  shows "monitor_vxsds_health fl env m =
     (\<lparr>report_timestamp = time_health env, overall_status = ''error'',
       issues = [MonitoringError e], warnings = [], metrics = Some s\<rparr>, m')"
  using assms by (simp add: monitor_vxsds_health_def Let_def)

text \<open>
  C8. When the summary's \<open>total_gb\<close> is 0 the guard of line 703 skips the capacity
  check: the checks raise no \<open>ZeroDivisionError\<close> (and no \<open>OverflowError\<close>), their
  result does not depend on \<open>free_gb\<close>, the report is not an error report, its issues are
  node issues only, and neither list holds a capacity message.
\<close>

theorem zero_total_skips_capacity_check:
  assumes "get_cee_storage_summary env m = (Inr s, m')" and "total_gb (capacity s) = 0"
  shows "health_checks fl s \<noteq> Inl ZeroDivisionError \<and>
         health_checks fl s \<noteq> Inl OverflowError \<and>
         health_checks fl (s\<lparr>capacity := (capacity s)\<lparr>free_gb := f\<rparr>\<rparr>) = health_checks fl s \<and>
         overall_status (fst (monitor_vxsds_health fl env m)) \<noteq> ''error'' \<and>
         metrics (fst (monitor_vxsds_health fl env m)) = Some s \<and>
         set (issues (fst (monitor_vxsds_health fl env m))) \<subseteq> {NoSdcNodes, NoSdsNodes} \<and>
         (\<forall>p. CriticallyLowFreeSpace p \<notin> set (issues (fst (monitor_vxsds_health fl env m)))) \<and>
         (\<forall>p. LowFreeSpace p \<notin> set (warnings (fst (monitor_vxsds_health fl env m))))"
proof -
  note z = health_checks_zero_total[OF assms(2)]
  have f: "health_checks fl (s\<lparr>capacity := (capacity s)\<lparr>free_gb := f\<rparr>\<rparr>) = health_checks fl s"
    using assms(2) by (simp add: health_checks_def Let_def)
  show ?thesis
    unfolding f monitor_vxsds_health_returned[OF assms(1) z] z by auto
qed

theorem zero_total_skips_capacity_check_witness:
  "total_gb (capacity (projr (fst (get_cee_storage_summary first_env CEEVxSDSManager_init)))) = 0 \<and>
   overall_status (fst (monitor_vxsds_health no_rounding first_env CEEVxSDSManager_init)) \<noteq> ''error'' \<and>
   issues (fst (monitor_vxsds_health no_rounding first_env CEEVxSDSManager_init)) = []"
proof -
  have h1: "get_cee_storage_summary first_env CEEVxSDSManager_init =
      (Inr (projr (fst (get_cee_storage_summary first_env CEEVxSDSManager_init))), after_first)"
    by (simp add: first_call_value after_first_value)
  have h2: "total_gb (capacity (projr (fst (get_cee_storage_summary first_env CEEVxSDSManager_init)))) = 0"
    by (simp add: first_call_value)
  have "issues (fst (monitor_vxsds_health no_rounding first_env CEEVxSDSManager_init)) = []"
    by (simp add: monitor_vxsds_health_def first_call_value health_checks_def Let_def)
  with zero_total_skips_capacity_check[OF h1 h2, of no_rounding] h2 show ?thesis by simp
qed



lemma no_nodes_call_value:
  "get_cee_storage_summary no_nodes_env CEEVxSDSManager_init =
     (Inr \<lparr>summary_timestamp = 1000, protection_domains = 1, storage_pools = Map.empty,
            volumes = \<lparr>total_count = 0, total_size_gb = 0, by_type = Map.empty, mapped_count = 0\<rparr>,
            nodes = \<lparr>sdc_count = 0, sds_count = 0, sdc_online = 0, sds_online = 0\<rparr>,
            capacity = \<lparr>total_gb = 0, free_gb = 0, used_gb = 0\<rparr>\<rparr>,
      \<lparr>vxsds_calls = [GetProtectionDomains, GetStoragePools, GetVolumes, GetSdcNodes, GetSdsNodes],
       protection_domains_cache = Some [''pd1''], storage_pools_cache = Some [],
       cache_time = 1000, cache_ttl = 300\<rparr>)"
  by (simp add: get_cee_storage_summary_def update_cache_def ask_def no_nodes_env_def first_env_def
      CEEVxSDSManager_init_def or_empty_def Let_def)

lemma critical_report_fields:
  "overall_status critical_report = ''critical''"
  "issues critical_report = [NoSdcNodes, NoSdsNodes]"
  "warnings critical_report = []"
  "map_option capacity (metrics critical_report) = Some \<lparr>total_gb = 0, free_gb = 0, used_gb = 0\<rparr>"
  by (simp_all add: critical_report_def monitor_vxsds_health_def health_checks_def
        no_nodes_call_value Let_def)

lemma huge_quotient_overflows:
  "double_overflow (real_of_int (2 ^ 1024) / real_of_int 1)"
proof -
  have "(2::real) ^ 1024 - 2 ^ 970 \<le> 2 ^ 1024" by simp
  then show ?thesis by (simp add: double_overflow_def)
qed

lemma overflow_call_capacity:
  "\<exists>s m'. get_cee_storage_summary overflow_env CEEVxSDSManager_init = (Inr s, m') \<and>
          capacity s = \<lparr>total_gb = 1, free_gb = 2 ^ 1024, used_gb = 1 - 2 ^ 1024\<rparr>"
  by (simp add: get_cee_storage_summary_def update_cache_def ask_def overflow_env_def first_env_def
      CEEVxSDSManager_init_def or_empty_def huge_pool_def Let_def)

lemma overflow_report_fields:
  "overall_status overflow_report = ''error''"
  "issues overflow_report = [MonitoringError OverflowError]"
  "map_option capacity (metrics overflow_report) =
     Some \<lparr>total_gb = 1, free_gb = 2 ^ 1024, used_gb = 1 - 2 ^ 1024\<rparr>"
proof -
  obtain s m' where s: "get_cee_storage_summary overflow_env CEEVxSDSManager_init = (Inr s, m')"
      "capacity s = \<lparr>total_gb = 1, free_gb = 2 ^ 1024, used_gb = 1 - 2 ^ 1024\<rparr>"
    using overflow_call_capacity by blast
  have "health_checks no_rounding s = Inl OverflowError"
    unfolding health_checks_raises using huge_quotient_overflows by (simp add: s(2))
  from monitor_vxsds_health_overflowed[OF s(1) this]
  show "overall_status overflow_report = ''error''"
    "issues overflow_report = [MonitoringError OverflowError]"
    "map_option capacity (metrics overflow_report) =
       Some \<lparr>total_gb = 1, free_gb = 2 ^ 1024, used_gb = 1 - 2 ^ 1024\<rparr>"
    by (simp_all add: overflow_report_def s(2))
qed



text \<open>
  C4 fails on the code. In the imported module the name \<open>time\<close> is unbound, so
  \<open>monitor_ovs_performance\<close> raises \<open>NameError\<close> on every switch, before its
  \<^verbatim>\<open>try\<close>, and so does \<open>monitor_cee_network_health\<close>. The orchestrator, whose OVS
  manager is of this class, catches the exception and therefore always reports the overall
  health error, with no recommendation.
\<close>

theorem monitor_ovs_performance_raises_when_imported:
  "monitor_ovs_performance Imported sw = Inl (NameError ''time'') \<and>
   monitor_cee_network_health Imported t topo sw = Inl (NameError ''time'') \<and>
   overall_health (orchestrator_status fl now openstack_client vxsds_manager (Some sw)) = ''error'' \<and>
   recommendations (orchestrator_status fl now openstack_client vxsds_manager (Some sw)) = [] \<and>
   last (alerts (orchestrator_status fl now openstack_client vxsds_manager (Some sw))) =
     StatusCollectionError (NameError ''time'')"
proof -
  have p: "monitor_ovs_performance Imported sw = Inl (NameError ''time'')"
    by (simp add: monitor_ovs_performance_def time_time_def)
  have h: "monitor_cee_network_health Imported t topo sw = Inl (NameError ''time'')"
    by (simp add: monitor_cee_network_health_def time_time_def)
  have s: "overall_health (orchestrator_status fl now openstack_client vxsds_manager (Some sw)) = ''error'' \<and>
   recommendations (orchestrator_status fl now openstack_client vxsds_manager (Some sw)) = [] \<and>
   last (alerts (orchestrator_status fl now openstack_client vxsds_manager (Some sw))) =
     StatusCollectionError (NameError ''time'')"
    unfolding orchestrator_status_def get_comprehensive_status_def
    by (auto simp: p collect_openstack_def collect_vxsds_def collect_ovs_def collection_failed_def
        Let_def split: option.splits sum.splits prod.splits)
  from p h s show ?thesis by blast
qed

subsection \<open>Tenant provisioning\<close>













subsection \<open>Stack deployment\<close>

lemma volumes_loop_all:
  "list_all (\<lambda>v. vc_name v \<noteq> None) vs \<Longrightarrow>
   volumes_loop (Some conn) sname vs res trace =
     (Inr (),
      res\<lparr>stack_volumes := stack_volumes res @ List.map_filter (created_volume conn sname) vs\<rparr>,
      trace @ map (\<lambda>v. CreateVmWithVxsdsStorage (volume_request sname (the (vc_name v)) v)) vs)"
proof (induction vs arbitrary: res trace)
  case Nil
  then show ?case by (simp add: List.map_filter_simps)
next
  case (Cons v vs)
  then obtain nm where nm: "vc_name v = Some nm" by auto
  from Cons have IH: "\<And>res trace. volumes_loop (Some conn) sname vs res trace =
     (Inr (),
      res\<lparr>stack_volumes := stack_volumes res @ List.map_filter (created_volume conn sname) vs\<rparr>,
      trace @ map (\<lambda>v. CreateVmWithVxsdsStorage (volume_request sname (the (vc_name v)) v)) vs)"
    by simp
  have cv: "created_volume conn sname v =
      (case create_vm_with_vxsds_storage conn (volume_request sname nm v) of
         Inr (server, volume) \<Rightarrow> Some volume | Inl _ \<Rightarrow> None)"
    by (simp add: created_volume_def nm)
  show ?case
    by (cases "create_vm_with_vxsds_storage conn (volume_request sname nm v)")
       (auto simp: nm IH Let_def List.map_filter_simps cv)
qed

lemma instances_loop_all:
  "list_all (\<lambda>i. ic_name i \<noteq> None) xs \<Longrightarrow> list_all (ports_listed conn sname) xs \<Longrightarrow>
   \<exists>calls. instances_loop (Some conn) sname xs res trace =
     (Inr (),
      res\<lparr>stack_instances := stack_instances res @ List.map_filter (created_server conn sname) xs\<rparr>,
      trace @ calls) \<and>
     filter is_creation_call calls =
       map (\<lambda>i. CreateVmWithVxsdsStorage (instance_request sname (the (ic_name i)) i)) xs"
proof (induction xs arbitrary: res trace)
  case Nil
  then show ?case by (simp add: List.map_filter_simps)
next
  case (Cons i xs)
  then obtain nm where nm: "ic_name i = Some nm" by auto
  let ?rq = "instance_request sname nm i"
  from Cons have IH: "\<And>res trace. \<exists>calls. instances_loop (Some conn) sname xs res trace =
     (Inr (),
      res\<lparr>stack_instances := stack_instances res @ List.map_filter (created_server conn sname) xs\<rparr>,
      trace @ calls) \<and>
     filter is_creation_call calls =
       map (\<lambda>i. CreateVmWithVxsdsStorage (instance_request sname (the (ic_name i)) i)) xs"
    by simp
  from Cons.prems have pl: "ports_listed conn sname i" by simp
  show ?case
  proof (cases "create_vm_with_vxsds_storage conn ?rq")
    case (Inl m)
    obtain calls where c: "instances_loop (Some conn) sname xs res
          (trace @ [CreateVmWithVxsdsStorage ?rq]) =
        (Inr (), res\<lparr>stack_instances := stack_instances res @
             List.map_filter (created_server conn sname) xs\<rparr>,
         (trace @ [CreateVmWithVxsdsStorage ?rq]) @ calls)"
      "filter is_creation_call calls =
         map (\<lambda>i. CreateVmWithVxsdsStorage (instance_request sname (the (ic_name i)) i)) xs"
      using IH by blast
    have cs: "created_server conn sname i = None"
      by (simp add: created_server_def nm Inl)
    show ?thesis
      by (rule exI[of _ "CreateVmWithVxsdsStorage ?rq # calls"])
         (simp add: nm Inl c Let_def List.map_filter_simps cs)
  next
    case (Inr sv)
    obtain server volume where sv: "sv = (server, volume)" by (cases sv)
    let ?res1 = "res\<lparr>stack_instances := stack_instances res @ [server]\<rparr>"
    have cs: "created_server conn sname i = Some server"
      by (simp add: created_server_def nm Inr sv)
    show ?thesis
    proof (cases "ic_qos i")
      case None
      obtain calls where c: "instances_loop (Some conn) sname xs ?res1
            (trace @ [CreateVmWithVxsdsStorage ?rq]) =
          (Inr (), ?res1\<lparr>stack_instances := stack_instances ?res1 @
               List.map_filter (created_server conn sname) xs\<rparr>,
           (trace @ [CreateVmWithVxsdsStorage ?rq]) @ calls)"
        "filter is_creation_call calls =
           map (\<lambda>i. CreateVmWithVxsdsStorage (instance_request sname (the (ic_name i)) i)) xs"
        using IH by blast
      show ?thesis
        by (rule exI[of _ "CreateVmWithVxsdsStorage ?rq # calls"])
           (simp add: nm Inr sv None c Let_def List.map_filter_simps cs)
    next
      case (Some qos)
      with pl cs obtain port_ids where p: "network_ports conn server = Inr port_ids"
        by (auto simp: ports_listed_def split: sum.splits)
      let ?q = "[NetworkPorts server] @
                map (\<lambda>port. ConfigureOvsQos port (max_kbps qos) (min_kbps qos)) port_ids"
      obtain calls where c: "instances_loop (Some conn) sname xs ?res1
            (trace @ [CreateVmWithVxsdsStorage ?rq] @ ?q) =
          (Inr (), ?res1\<lparr>stack_instances := stack_instances ?res1 @
               List.map_filter (created_server conn sname) xs\<rparr>,
           (trace @ [CreateVmWithVxsdsStorage ?rq] @ ?q) @ calls)"
        "filter is_creation_call calls =
           map (\<lambda>i. CreateVmWithVxsdsStorage (instance_request sname (the (ic_name i)) i)) xs"
        using IH by blast
      have qf: "filter is_creation_call ?q = []"
        by (induction port_ids) auto
      show ?thesis
        apply (rule exI[of _ "CreateVmWithVxsdsStorage ?rq # ?q @ calls"])
        using c qf by (simp add: nm Inr sv Some p Let_def List.map_filter_simps cs)
    qed
  qed
qed

text \<open>
  C5, as the code has it. When every spec has a name and listing the ports of a created
  server with a QoS entry does not raise, the run makes one creation call per spec, volumes
  first, each list in order, whatever the earlier calls answered; the result lists the
  volumes and servers of the success answers in order; an error answer leaves no trace in
  the result: the status stays success and there is no message.
\<close>

theorem deploy_best_effort:
  assumes "list_all (\<lambda>v. vc_name v \<noteq> None) (volume_specs config)"
    and "list_all (\<lambda>i. ic_name i \<noteq> None) (instances config)"
    and "list_all (ports_listed conn sname) (instances config)"
  shows "\<exists>r calls.
     deploy_application_stack (Some conn) sname project_id config trace = (r, trace @ calls) \<and>
     stack_status r = ''success'' \<and> stack_message r = None \<and>
     stack_volumes r = List.map_filter (created_volume conn sname) (volume_specs config) \<and>
     stack_instances r = List.map_filter (created_server conn sname) (instances config) \<and>
     filter is_creation_call calls =
       map (\<lambda>v. CreateVmWithVxsdsStorage (volume_request sname (the (vc_name v)) v))
         (volume_specs config) @
       map (\<lambda>i. CreateVmWithVxsdsStorage (instance_request sname (the (ic_name i)) i))
         (instances config)"
proof -
  let ?r0 = "\<lparr>stack_name = sname, stack_status = ''success'', stack_instances = [],
              stack_volumes = [], load_balancers = [], stack_message = None\<rparr>"
  let ?vc = "map (\<lambda>v. CreateVmWithVxsdsStorage (volume_request sname (the (vc_name v)) v))
              (volume_specs config)"
  let ?r1 = "?r0\<lparr>stack_volumes := stack_volumes ?r0 @
              List.map_filter (created_volume conn sname) (volume_specs config)\<rparr>"
  have v: "volumes_loop (Some conn) sname (volume_specs config) ?r0 trace =
      (Inr (), ?r1, trace @ ?vc)"
    by (rule volumes_loop_all[OF assms(1)])
  obtain calls where i: "instances_loop (Some conn) sname (instances config) ?r1 (trace @ ?vc) =
      (Inr (), ?r1\<lparr>stack_instances := stack_instances ?r1 @
           List.map_filter (created_server conn sname) (instances config)\<rparr>,
       (trace @ ?vc) @ calls)"
    "filter is_creation_call calls =
       map (\<lambda>i. CreateVmWithVxsdsStorage (instance_request sname (the (ic_name i)) i))
         (instances config)"
    using instances_loop_all[OF assms(2,3)] by blast
  have f: "filter is_creation_call ?vc = ?vc"
    by (induction "volume_specs config") auto
  show ?thesis
    apply (rule exI[of _ "?r1\<lparr>stack_instances := stack_instances ?r1 @
           List.map_filter (created_server conn sname) (instances config)\<rparr>"])
    apply (rule exI[of _ "?vc @ calls"])
    using v i f by (simp add: deploy_application_stack_def Let_def)
qed


lemma example_created:
  "created_volume working_conn ''app'' bad_volume = None"
  "created_volume working_conn ''app'' data_volume = Some ''volume-app-data-vol''"
  "created_server working_conn ''app'' web_instance = Some ''server-app-web-01''"
  by (simp_all add: created_volume_def created_server_def working_conn_def bad_volume_def
      data_volume_def web_instance_def volume_request_def instance_request_def get_or_def)

theorem deploy_best_effort_witness:
  "list_all (\<lambda>v. vc_name v \<noteq> None) (volume_specs example_stack) \<and>
   list_all (\<lambda>i. ic_name i \<noteq> None) (instances example_stack) \<and>
   list_all (ports_listed working_conn ''app'') (instances example_stack) \<and>
   (\<exists>r calls.
      deploy_application_stack (Some working_conn) ''app'' ''p1'' example_stack [] = (r, calls) \<and>
      stack_status r = ''success'' \<and>
      stack_volumes r = [''volume-app-data-vol''] \<and>
      stack_instances r = [''server-app-web-01''] \<and>
      length (filter is_creation_call calls) = 3)"
proof -
  have h1: "list_all (\<lambda>v. vc_name v \<noteq> None) (volume_specs example_stack)"
    by (simp add: example_stack_def bad_volume_def data_volume_def)
  have h2: "list_all (\<lambda>i. ic_name i \<noteq> None) (instances example_stack)"
    by (simp add: example_stack_def web_instance_def)
  have h3: "list_all (ports_listed working_conn ''app'') (instances example_stack)"
    by (simp add: example_stack_def ports_listed_def example_created)
       (simp add: working_conn_def web_instance_def)
  have v: "List.map_filter (created_volume working_conn ''app'') (volume_specs example_stack) =
      [''volume-app-data-vol'']"
    and i: "List.map_filter (created_server working_conn ''app'') (instances example_stack) =
      [''server-app-web-01'']"
    by (simp_all add: example_stack_def List.map_filter_simps example_created)
  from deploy_best_effort[OF h1 h2 h3, of "''p1''" "[]"] obtain r calls where
    "deploy_application_stack (Some working_conn) ''app'' ''p1'' example_stack [] = (r, calls)"
    "stack_status r = ''success''"
    "stack_volumes r = [''volume-app-data-vol'']"
    "stack_instances r = [''server-app-web-01'']"
    "length (filter is_creation_call calls) = 3"
    unfolding v i by (auto simp: example_stack_def)
  with h1 h2 h3 show ?thesis by blast
qed

text \<open>
  C5 as stated fails: the creation of the first of two volumes fails, and the returned
  result records nothing of it; it equals the result of the run without that spec.
\<close>

theorem deploy_failure_not_recorded_counterexample:
  "created_volume working_conn ''app'' bad_volume = None \<and>
   fst (deploy_application_stack (Some working_conn) ''app'' ''p1''
          \<lparr>instances = [], volume_specs = [bad_volume, data_volume]\<rparr> []) =
     \<lparr>stack_name = ''app'', stack_status = ''success'', stack_instances = [],
      stack_volumes = [''volume-app-data-vol''], load_balancers = [], stack_message = None\<rparr> \<and>
   fst (deploy_application_stack (Some working_conn) ''app'' ''p1''
          \<lparr>instances = [], volume_specs = [bad_volume, data_volume]\<rparr> []) =
   fst (deploy_application_stack (Some working_conn) ''app'' ''p1''
          \<lparr>instances = [], volume_specs = [data_volume]\<rparr> [])"
  by (simp add: example_created)
     (simp add: deploy_application_stack_def working_conn_def bad_volume_def data_volume_def
        volume_request_def get_or_def Let_def)

text \<open>
  An exception inside a loop is another matter: a spec without a name ends the batch, the
  volumes after it and all instances are not attempted, and the status is error.
\<close>

lemma missing_name_aborts_batch:
  "deploy_application_stack (Some working_conn) ''app'' ''p1''
      \<lparr>instances = [web_instance], volume_specs = [data_volume, nameless_volume, data_volume]\<rparr> [] =
   (\<lparr>stack_name = ''app'', stack_status = ''error'', stack_instances = [],
     stack_volumes = [''volume-app-data-vol''], load_balancers = [],
     stack_message = Some (StrExn (KeyError ''name''))\<rparr>,
    [CreateVmWithVxsdsStorage (volume_request ''app'' ''data'' data_volume)])"
  by (simp add: deploy_application_stack_def working_conn_def nameless_volume_def data_volume_def
        volume_request_def get_or_def Let_def)

subsection \<open>The health-check battery\<close>

lemma check_body_fields:
  "checks (check_body n p hc) = (checks hc)(n \<mapsto> probe_entry p)"
  "passed (check_body n p hc) = passed hc + (if counts_passed p then 1 else 0)"
  "check_warnings (check_body n p hc) = check_warnings hc + (if counts_warning p then 1 else 0)"
  "failed (check_body n p hc) = failed hc + (if counts_failed p then 1 else 0)"
  "check_timestamp (check_body n p hc) = check_timestamp hc"
  by (cases p; simp add: check_body_def probe_entry_def counts_passed_def counts_warning_def
        counts_failed_def Let_def)+

lemma check_loop_called:
  "snd (check_loop cs hc called) = called @ map fst cs"
  by (induction cs arbitrary: hc called) auto

lemma check_loop_tally:
  "passed (fst (check_loop cs hc called)) = passed hc + length (filter (counts_passed \<circ> snd) cs) \<and>
   check_warnings (fst (check_loop cs hc called)) =
     check_warnings hc + length (filter (counts_warning \<circ> snd) cs) \<and>
   failed (fst (check_loop cs hc called)) = failed hc + length (filter (counts_failed \<circ> snd) cs) \<and>
   check_timestamp (fst (check_loop cs hc called)) = check_timestamp hc"
  by (induction cs arbitrary: hc called) (auto simp: check_body_fields)

lemma check_loop_other:
  "n \<notin> fst ` set cs \<Longrightarrow> checks (fst (check_loop cs hc called)) n = checks hc n"
  by (induction cs arbitrary: hc called) (auto simp: check_body_fields)

lemma check_loop_entry:
  "distinct (map fst cs) \<Longrightarrow> (n, p) \<in> set cs \<Longrightarrow>
   checks (fst (check_loop cs hc called)) n = Some (probe_entry p)"
proof (induction cs arbitrary: hc called)
  case Nil
  then show ?case by simp
next
  case (Cons c cs)
  obtain m q where c: "c = (m, q)" by (cases c)
  show ?case
  proof (cases "(n, p) = c")
    case True
    with Cons.prems c have "n \<notin> fst ` set cs" by (auto simp: image_iff)
    from check_loop_other[OF this] True c show ?thesis by (simp add: check_body_fields)
  next
    case False
    with Cons c show ?thesis by auto
  qed
qed

lemma counts_partition:
  "length (filter counts_passed ps) + length (filter counts_warning ps) +
   length (filter counts_failed ps) = length ps"
proof (induction ps)
  case Nil
  then show ?case by simp
next
  case (Cons p ps)
  have "(counts_passed p \<and> \<not> counts_warning p \<and> \<not> counts_failed p) \<or>
        (\<not> counts_passed p \<and> counts_warning p \<and> \<not> counts_failed p) \<or>
        (\<not> counts_passed p \<and> \<not> counts_warning p \<and> counts_failed p)"
    by (cases p) (auto simp: counts_passed_def counts_warning_def counts_failed_def)
  with Cons show ?case by auto
qed

text \<open>
  C9. Whatever the five probes do, all five are called, in order; the entry of a probe that
  raises is the fail entry with the exception's text, and the entry of a probe that
  returns is its result; the three counters are produced and add up to five, a raising
  probe counting as failed.
\<close>

theorem probes_are_isolated:
  "snd (perform_health_check now p1 p2 p3 p4 p5) =
     [''openstack_api'', ''vxsds_connectivity'', ''ovs_bridges'', ''network_connectivity'',
      ''storage_health''] \<and>
   checks (fst (perform_health_check now p1 p2 p3 p4 p5)) ''openstack_api'' = Some (probe_entry p1) \<and>
   checks (fst (perform_health_check now p1 p2 p3 p4 p5)) ''vxsds_connectivity'' = Some (probe_entry p2) \<and>
   checks (fst (perform_health_check now p1 p2 p3 p4 p5)) ''ovs_bridges'' = Some (probe_entry p3) \<and>
   checks (fst (perform_health_check now p1 p2 p3 p4 p5)) ''network_connectivity'' = Some (probe_entry p4) \<and>
   checks (fst (perform_health_check now p1 p2 p3 p4 p5)) ''storage_health'' = Some (probe_entry p5) \<and>
   passed (fst (perform_health_check now p1 p2 p3 p4 p5)) =
     length (filter counts_passed [p1, p2, p3, p4, p5]) \<and>
   check_warnings (fst (perform_health_check now p1 p2 p3 p4 p5)) =
     length (filter counts_warning [p1, p2, p3, p4, p5]) \<and>
   failed (fst (perform_health_check now p1 p2 p3 p4 p5)) =
     length (filter counts_failed [p1, p2, p3, p4, p5]) \<and>
   passed (fst (perform_health_check now p1 p2 p3 p4 p5)) +
   check_warnings (fst (perform_health_check now p1 p2 p3 p4 p5)) +
   failed (fst (perform_health_check now p1 p2 p3 p4 p5)) = 5"
proof -
  let ?cs = "[(''openstack_api'', p1), (''vxsds_connectivity'', p2), (''ovs_bridges'', p3),
              (''network_connectivity'', p4), (''storage_health'', p5)]"
  let ?hc = "\<lparr>check_timestamp = now, checks = Map.empty, passed = 0, failed = 0,
              check_warnings = 0\<rparr>"
  have d: "distinct (map fst ?cs)" by simp
  have e: "perform_health_check now p1 p2 p3 p4 p5 = check_loop ?cs ?hc []"
    by (simp add: perform_health_check_def)
  have t: "passed (fst (check_loop ?cs ?hc [])) = length (filter counts_passed [p1, p2, p3, p4, p5])"
    "check_warnings (fst (check_loop ?cs ?hc [])) = length (filter counts_warning [p1, p2, p3, p4, p5])"
    "failed (fst (check_loop ?cs ?hc [])) = length (filter counts_failed [p1, p2, p3, p4, p5])"
    using check_loop_tally[of ?cs ?hc "[]"] by simp_all
  have s: "length (filter counts_passed [p1, p2, p3, p4, p5]) +
      length (filter counts_warning [p1, p2, p3, p4, p5]) +
      length (filter counts_failed [p1, p2, p3, p4, p5]) = 5"
    using counts_partition[of "[p1, p2, p3, p4, p5]"] by (simp only: list.size length_Cons)
  have c: "snd (check_loop ?cs ?hc []) =
      [''openstack_api'', ''vxsds_connectivity'', ''ovs_bridges'', ''network_connectivity'',
       ''storage_health'']"
    by (simp add: check_loop_called)
  have k1: "checks (fst (check_loop ?cs ?hc [])) ''openstack_api'' = Some (probe_entry p1)"
    by (rule check_loop_entry[OF d]) simp
  have k2: "checks (fst (check_loop ?cs ?hc [])) ''vxsds_connectivity'' = Some (probe_entry p2)"
    by (rule check_loop_entry[OF d]) simp
  have k3: "checks (fst (check_loop ?cs ?hc [])) ''ovs_bridges'' = Some (probe_entry p3)"
    by (rule check_loop_entry[OF d]) simp
  have k4: "checks (fst (check_loop ?cs ?hc [])) ''network_connectivity'' = Some (probe_entry p4)"
    by (rule check_loop_entry[OF d]) simp
  have k5: "checks (fst (check_loop ?cs ?hc [])) ''storage_health'' = Some (probe_entry p5)"
    by (rule check_loop_entry[OF d]) simp
  show ?thesis
    unfolding e t c k1 k2 k3 k4 k5 using s by simp
qed

theorem probes_are_isolated_witness:
  "snd (perform_health_check 1000 passing_probe raising_probe passing_probe passing_probe
          passing_probe) =
     [''openstack_api'', ''vxsds_connectivity'', ''ovs_bridges'', ''network_connectivity'',
      ''storage_health''] \<and>
   checks (fst (perform_health_check 1000 passing_probe raising_probe passing_probe passing_probe
          passing_probe)) ''vxsds_connectivity'' =
     Some \<lparr>probe_status = ''fail'',
           probe_message = CheckFailedWithException (AdapterError ''connection reset'')\<rparr> \<and>
   passed (fst (perform_health_check 1000 passing_probe raising_probe passing_probe passing_probe
          passing_probe)) = 4 \<and>
   failed (fst (perform_health_check 1000 passing_probe raising_probe passing_probe passing_probe
          passing_probe)) = 1"
  using probes_are_isolated[of 1000 passing_probe raising_probe passing_probe passing_probe
          passing_probe]
  by (simp add: probe_entry_def counts_passed_def counts_failed_def raising_probe_def
      passing_probe_def)

subsection \<open>The comprehensive status\<close>

lemma returned_map: "returned (map_option Inr c) = c"
  by (cases c) (simp_all add: returned_def)

lemma not_raises: "\<not> raises c \<Longrightarrow> \<exists>c'. c = map_option Inr c'"
  by (cases c) (auto simp: raises_def split: sum.splits intro: exI[of _ "Some _"] exI[of _ None])

lemma raises_exn: "raises c \<Longrightarrow> \<exists>e. c = Some (Inl e)"
  by (auto simp: raises_def split: option.splits sum.splits)

text \<open>Line 397 raises exactly when the quotient overflows.\<close>

lemma recommend_overflows:
  "capacity_overflows (comp_vxsds (components st)) \<Longrightarrow> recommend fl st = Inl OverflowError"
  by (auto simp: recommend_def capacity_overflows_def py_truediv_def Let_def split: option.splits)

lemma recommend_returns:
  "\<not> capacity_overflows (comp_vxsds (components st)) \<Longrightarrow>
   \<exists>st'. recommend fl st = Inr st' \<and> overall_health st' = overall_health st \<and>
         alerts st' = alerts st"
  by (auto simp: recommend_def capacity_overflows_def py_truediv_def Let_def split: option.splits)

lemma collect_openstack_health:
  "\<exists>st'. collect_openstack (map_option Inr os) st = Inr st' \<and>
     alerts st' = alerts st @
       (case os of Some (Inl _) \<Rightarrow> [OpenStackClusterIssues] | _ \<Rightarrow> []) \<and>
     overall_health st' = (case os of Some (Inl _) \<Rightarrow> ''warning'' | _ \<Rightarrow> overall_health st) \<and>
     comp_vxsds (components st') = comp_vxsds (components st)"
  by (auto simp: collect_openstack_def Let_def split: option.splits sum.splits)

lemma collect_vxsds_health:
  "\<exists>st'. collect_vxsds (map_option Inr vx) st = Inr st' \<and>
     alerts st' = alerts st @
       (case vx of None \<Rightarrow> []
        | Some r \<Rightarrow> if overall_status r \<noteq> ''healthy'' then [VxSDSIssues (overall_status r)] else []) \<and>
     overall_health st' =
       (case vx of None \<Rightarrow> overall_health st
        | Some r \<Rightarrow> if overall_status r = ''healthy'' then overall_health st
                    else if overall_status r = ''critical'' then ''critical''
                    else if overall_health st = ''healthy'' then ''warning''
                    else overall_health st) \<and>
     comp_vxsds (components st') =
       (case vx of None \<Rightarrow> comp_vxsds (components st) | Some r \<Rightarrow> Some r)"
  by (auto simp: collect_vxsds_def Let_def split: option.splits)

lemma collect_ovs_health:
  "\<exists>st'. collect_ovs (map_option Inr ovs) st = Inr st' \<and>
     alerts st' = alerts st @
       (case ovs of None \<Rightarrow> []
        | Some p \<Rightarrow> if get_or (cpu_usage p ''ovs_vswitchd'') 0 > 80
                    then [HighOVSCpuUsage (get_or (cpu_usage p ''ovs_vswitchd'') 0)] else []) \<and>
     overall_health st' =
       (case ovs of None \<Rightarrow> overall_health st
        | Some p \<Rightarrow> if get_or (cpu_usage p ''ovs_vswitchd'') 0 > 80 \<and> overall_health st = ''healthy''
                    then ''warning'' else overall_health st) \<and>
     comp_vxsds (components st') = comp_vxsds (components st)"
  by (auto simp: collect_ovs_def Let_def split: option.splits)

lemma worst_of_simps:
  assumes "a \<in> {''healthy'', ''warning'', ''critical''}"
  shows "worst_of a ''healthy'' = a"
    and "worst_of a ''warning'' = (if a = ''healthy'' then ''warning'' else a)"
    and "worst_of ''healthy'' a = a"
    and "worst_of ''warning'' a = (if a = ''critical'' then ''critical'' else ''warning'')"
  using assms by (auto simp: worst_of_def verdict_rank_def)

lemma worst_of_cpu:
  assumes "a \<in> {''healthy'', ''warning'', ''critical''}"
  shows "(if c \<and> a = ''healthy'' then ''warning'' else a) =
         worst_of a (if c then ''warning'' else ''healthy'')"
  using assms by (auto simp: worst_of_def verdict_rank_def)

lemma openstack_verdict_range: "openstack_verdict os \<in> {''healthy'', ''warning''}"
  by (auto simp: openstack_verdict_def split: option.splits sum.splits)

lemma vxsds_verdict_range: "vxsds_verdict vx \<in> {''healthy'', ''warning'', ''critical''}"
  by (auto simp: vxsds_verdict_def split: option.splits)

lemma ovs_verdict_range: "ovs_verdict ovs \<in> {''healthy'', ''warning''}"
  by (auto simp: ovs_verdict_def split: option.splits)

text \<open>The three assignments of lines 356, 366, 368 and 381, read as a merge.\<close>

lemma merged_health:
  "(let h1 = (case os of Some (Inl _) \<Rightarrow> ''warning'' | _ \<Rightarrow> ''healthy'');
        h2 = (case vx of None \<Rightarrow> h1
              | Some r \<Rightarrow> if overall_status r = ''healthy'' then h1
                          else if overall_status r = ''critical'' then ''critical''
                          else if h1 = ''healthy'' then ''warning'' else h1)
    in case ovs of None \<Rightarrow> h2
       | Some p \<Rightarrow> if get_or (cpu_usage p ''ovs_vswitchd'') 0 > 80 \<and> h2 = ''healthy''
                   then ''warning'' else h2) =
   worst_of (worst_of (openstack_verdict os) (vxsds_verdict vx)) (ovs_verdict ovs)"
proof -
  note o = openstack_verdict_range[of os]
  note v = vxsds_verdict_range[of vx]
  have h1: "(case os of Some (Inl _) \<Rightarrow> ''warning'' | _ \<Rightarrow> ''healthy'') = openstack_verdict os"
    by (simp add: openstack_verdict_def split: option.splits sum.splits)
  have h2: "(case vx of None \<Rightarrow> openstack_verdict os
             | Some r \<Rightarrow> if overall_status r = ''healthy'' then openstack_verdict os
                         else if overall_status r = ''critical'' then ''critical''
                         else if openstack_verdict os = ''healthy'' then ''warning''
                         else openstack_verdict os) =
            worst_of (openstack_verdict os) (vxsds_verdict vx)"
    using o by (auto simp: worst_of_def verdict_rank_def vxsds_verdict_def split: option.splits)
  have w: "worst_of (openstack_verdict os) (vxsds_verdict vx) \<in> {''healthy'', ''warning'', ''critical''}"
    using o v by (auto simp: worst_of_def)
  have h3: "(case ovs of None \<Rightarrow> worst_of (openstack_verdict os) (vxsds_verdict vx)
             | Some p \<Rightarrow> if get_or (cpu_usage p ''ovs_vswitchd'') 0 > 80 \<and>
                            worst_of (openstack_verdict os) (vxsds_verdict vx) = ''healthy''
                         then ''warning'' else worst_of (openstack_verdict os) (vxsds_verdict vx)) =
            worst_of (worst_of (openstack_verdict os) (vxsds_verdict vx)) (ovs_verdict ovs)"
  proof (cases ovs)
    case None
    then show ?thesis by (simp add: ovs_verdict_def worst_of_simps(1)[OF w])
  next
    case (Some p)
    then show ?thesis by (simp only: option.case ovs_verdict_def worst_of_cpu[OF w])
  qed
  show ?thesis unfolding Let_def h1 h2 h3 by simp
qed

text \<open>The status when the three methods return.\<close>

lemma status_when_all_return:
  "overall_health (get_comprehensive_status fl now (map_option Inr os) (map_option Inr vx)
       (map_option Inr ovs)) =
     (if capacity_overflows vx then ''error''
      else worst_of (worst_of (openstack_verdict os) (vxsds_verdict vx)) (ovs_verdict ovs)) \<and>
   alerts (get_comprehensive_status fl now (map_option Inr os) (map_option Inr vx)
       (map_option Inr ovs)) =
     subsystem_alerts os vx ovs @
     (if capacity_overflows vx then [StatusCollectionError OverflowError] else [])"
proof -
  let ?st0 = "\<lparr>status_timestamp = now, overall_health = ''healthy'',
      components = \<lparr>comp_openstack = None, comp_vxsds = None, comp_ovs = None\<rparr>,
      alerts = [], recommendations = []\<rparr>"
  obtain st1 where 0: "collect_openstack (map_option Inr os) ?st0 = Inr st1"
    "alerts st1 = alerts ?st0 @
       (case os of Some (Inl _) \<Rightarrow> [OpenStackClusterIssues] | _ \<Rightarrow> [])"
    "overall_health st1 =
       (case os of Some (Inl _) \<Rightarrow> ''warning'' | _ \<Rightarrow> overall_health ?st0)"
    "comp_vxsds (components st1) = comp_vxsds (components ?st0)"
    using collect_openstack_health[of os ?st0] by blast
  have 1: "collect_openstack (map_option Inr os) ?st0 = Inr st1"
    "alerts st1 = (case os of Some (Inl _) \<Rightarrow> [OpenStackClusterIssues] | _ \<Rightarrow> [])"
    "overall_health st1 = (case os of Some (Inl _) \<Rightarrow> ''warning'' | _ \<Rightarrow> ''healthy'')"
    "comp_vxsds (components st1) = None"
    using 0 by (simp_all split: option.splits sum.splits)
  obtain st2 where 2: "collect_vxsds (map_option Inr vx) st1 = Inr st2"
    "alerts st2 = alerts st1 @
       (case vx of None \<Rightarrow> []
        | Some r \<Rightarrow> if overall_status r \<noteq> ''healthy'' then [VxSDSIssues (overall_status r)] else [])"
    "overall_health st2 =
       (case vx of None \<Rightarrow> overall_health st1
        | Some r \<Rightarrow> if overall_status r = ''healthy'' then overall_health st1
                    else if overall_status r = ''critical'' then ''critical''
                    else if overall_health st1 = ''healthy'' then ''warning''
                    else overall_health st1)"
    "comp_vxsds (components st2) =
       (case vx of None \<Rightarrow> comp_vxsds (components st1) | Some r \<Rightarrow> Some r)"
    using collect_vxsds_health by blast
  obtain st3 where 3: "collect_ovs (map_option Inr ovs) st2 = Inr st3"
    "alerts st3 = alerts st2 @
       (case ovs of None \<Rightarrow> []
        | Some p \<Rightarrow> if get_or (cpu_usage p ''ovs_vswitchd'') 0 > 80
                    then [HighOVSCpuUsage (get_or (cpu_usage p ''ovs_vswitchd'') 0)] else [])"
    "overall_health st3 =
       (case ovs of None \<Rightarrow> overall_health st2
        | Some p \<Rightarrow> if get_or (cpu_usage p ''ovs_vswitchd'') 0 > 80 \<and> overall_health st2 = ''healthy''
                    then ''warning'' else overall_health st2)"
    "comp_vxsds (components st3) = comp_vxsds (components st2)"
    using collect_ovs_health by blast
  have c: "comp_vxsds (components st3) = vx"
    by (simp add: 1(4) 2(4) 3(4) split: option.splits)
  have a: "alerts st3 = subsystem_alerts os vx ovs"
    by (simp add: 1 2 3 subsystem_alerts_def)
  have h: "overall_health st3 =
      worst_of (worst_of (openstack_verdict os) (vxsds_verdict vx)) (ovs_verdict ovs)"
    unfolding merged_health[of os vx ovs, symmetric] 3(3) 2(3) 1(3) Let_def by simp
  show ?thesis
  proof (cases "capacity_overflows vx")
    case True
    then have "recommend fl st3 = Inl OverflowError"
      using recommend_overflows[of st3 fl] c by simp
    then have "get_comprehensive_status fl now (map_option Inr os) (map_option Inr vx)
       (map_option Inr ovs) = collection_failed st3 OverflowError"
      by (simp add: get_comprehensive_status_def 1(1) 2(1) 3(1))
    then show ?thesis using True a by (simp add: collection_failed_def)
  next
    case False
    then obtain st4 where 4: "recommend fl st3 = Inr st4" "overall_health st4 = overall_health st3"
      "alerts st4 = alerts st3"
      using recommend_returns[of st3 fl] c by auto
    have "get_comprehensive_status fl now (map_option Inr os) (map_option Inr vx)
       (map_option Inr ovs) = st4"
      by (simp add: get_comprehensive_status_def 1(1) 2(1) 3(1) 4(1))
    then show ?thesis using False a h 4 by simp
  qed
qed

text \<open>The status when a method raises: the handler of lines 403 to 405.\<close>

lemma status_when_openstack_raises:
  "get_comprehensive_status fl now (Some (Inl e)) vxsds_manager ovs_manager =
     \<lparr>status_timestamp = now, overall_health = ''error'',
      components = \<lparr>comp_openstack = None, comp_vxsds = None, comp_ovs = None\<rparr>,
      alerts = [StatusCollectionError e], recommendations = []\<rparr>"
  by (simp add: get_comprehensive_status_def collect_openstack_def collection_failed_def)

lemma status_when_vxsds_raises:
  "overall_health (get_comprehensive_status fl now (map_option Inr os) (Some (Inl e))
       ovs_manager) = ''error'' \<and>
   alerts (get_comprehensive_status fl now (map_option Inr os) (Some (Inl e)) ovs_manager) =
     subsystem_alerts os None None @ [StatusCollectionError e]"
proof -
  let ?st0 = "\<lparr>status_timestamp = now, overall_health = ''healthy'',
      components = \<lparr>comp_openstack = None, comp_vxsds = None, comp_ovs = None\<rparr>,
      alerts = [], recommendations = []\<rparr>"
  obtain st1 where 1: "collect_openstack (map_option Inr os) ?st0 = Inr st1"
    "alerts st1 = alerts ?st0 @
       (case os of Some (Inl _) \<Rightarrow> [OpenStackClusterIssues] | _ \<Rightarrow> [])"
    using collect_openstack_health[of os ?st0] by blast
  have "get_comprehensive_status fl now (map_option Inr os) (Some (Inl e)) ovs_manager =
      collection_failed st1 e"
    by (simp add: get_comprehensive_status_def 1(1) collect_vxsds_def)
  then show ?thesis
    using 1(2) by (simp add: collection_failed_def subsystem_alerts_def)
qed

lemma status_when_ovs_raises:
  "overall_health (get_comprehensive_status fl now (map_option Inr os) (map_option Inr vx)
       (Some (Inl e))) = ''error'' \<and>
   alerts (get_comprehensive_status fl now (map_option Inr os) (map_option Inr vx)
       (Some (Inl e))) =
     subsystem_alerts os vx None @ [StatusCollectionError e]"
proof -
  let ?st0 = "\<lparr>status_timestamp = now, overall_health = ''healthy'',
      components = \<lparr>comp_openstack = None, comp_vxsds = None, comp_ovs = None\<rparr>,
      alerts = [], recommendations = []\<rparr>"
  obtain st1 where 1: "collect_openstack (map_option Inr os) ?st0 = Inr st1"
    "alerts st1 = alerts ?st0 @
       (case os of Some (Inl _) \<Rightarrow> [OpenStackClusterIssues] | _ \<Rightarrow> [])"
    using collect_openstack_health[of os ?st0] by blast
  obtain st2 where 2: "collect_vxsds (map_option Inr vx) st1 = Inr st2"
    "alerts st2 = alerts st1 @
       (case vx of None \<Rightarrow> []
        | Some r \<Rightarrow> if overall_status r \<noteq> ''healthy'' then [VxSDSIssues (overall_status r)] else [])"
    using collect_vxsds_health by blast
  have "get_comprehensive_status fl now (map_option Inr os) (map_option Inr vx) (Some (Inl e)) =
      collection_failed st2 e"
    by (simp add: get_comprehensive_status_def 1(1) 2(1) collect_ovs_def)
  then show ?thesis
    using 1(2) 2(2) by (simp add: collection_failed_def subsystem_alerts_def)
qed

text \<open>The overall health, for every behaviour of the three methods.\<close>

lemma comprehensive_health:
  "overall_health (get_comprehensive_status fl now openstack_client vxsds_manager ovs_manager) =
     (if raises openstack_client \<or> raises vxsds_manager \<or> raises ovs_manager \<or>
         capacity_overflows (returned vxsds_manager)
      then ''error''
      else worst_of (worst_of (openstack_verdict (returned openstack_client))
                              (vxsds_verdict (returned vxsds_manager)))
                    (ovs_verdict (returned ovs_manager)))"
proof -
  consider (os) "raises openstack_client"
    | (vx) "\<not> raises openstack_client" "raises vxsds_manager"
    | (ovs) "\<not> raises openstack_client" "\<not> raises vxsds_manager" "raises ovs_manager"
    | (none) "\<not> raises openstack_client" "\<not> raises vxsds_manager" "\<not> raises ovs_manager"
    by blast
  then show ?thesis
  proof cases
    case os
    from raises_exn[OF os] obtain e where "openstack_client = Some (Inl e)" ..
    with os show ?thesis by (simp add: status_when_openstack_raises)
  next
    case vx
    from not_raises[OF vx(1)] obtain os' where c1: "openstack_client = map_option Inr os'" ..
    from raises_exn[OF vx(2)] obtain e where c2: "vxsds_manager = Some (Inl e)" ..
    from vx(2) show ?thesis
      unfolding c1 c2 by (simp add: status_when_vxsds_raises[THEN conjunct1])
  next
    case ovs
    from not_raises[OF ovs(1)] obtain os' where c1: "openstack_client = map_option Inr os'" ..
    from not_raises[OF ovs(2)] obtain vx' where c2: "vxsds_manager = map_option Inr vx'" ..
    from raises_exn[OF ovs(3)] obtain e where c3: "ovs_manager = Some (Inl e)" ..
    from ovs(3) show ?thesis
      unfolding c1 c2 c3 by (simp add: status_when_ovs_raises[THEN conjunct1])
  next
    case none
    from not_raises[OF none(1)] obtain os' where c1: "openstack_client = map_option Inr os'" ..
    from not_raises[OF none(2)] obtain vx' where c2: "vxsds_manager = map_option Inr vx'" ..
    from not_raises[OF none(3)] obtain ovs' where c3: "ovs_manager = map_option Inr ovs'" ..
    from none show ?thesis
      unfolding c1 c2 c3 by (simp add: status_when_all_return[THEN conjunct1] returned_map)
  qed
qed

text \<open>The alert list, for every behaviour of the three methods.\<close>

lemma comprehensive_alerts:
  "alerts (get_comprehensive_status fl now openstack_client vxsds_manager ovs_manager) =
     (if raises openstack_client then collection_alert openstack_client
      else if raises vxsds_manager
      then subsystem_alerts (returned openstack_client) None None @
           collection_alert vxsds_manager
      else if raises ovs_manager
      then subsystem_alerts (returned openstack_client) (returned vxsds_manager) None @
           collection_alert ovs_manager
      else subsystem_alerts (returned openstack_client) (returned vxsds_manager)
             (returned ovs_manager) @
           (if capacity_overflows (returned vxsds_manager)
            then [StatusCollectionError OverflowError] else []))"
proof -
  consider (os) "raises openstack_client"
    | (vx) "\<not> raises openstack_client" "raises vxsds_manager"
    | (ovs) "\<not> raises openstack_client" "\<not> raises vxsds_manager" "raises ovs_manager"
    | (none) "\<not> raises openstack_client" "\<not> raises vxsds_manager" "\<not> raises ovs_manager"
    by blast
  then show ?thesis
  proof cases
    case os
    from raises_exn[OF os] obtain e where "openstack_client = Some (Inl e)" ..
    with os show ?thesis by (simp add: status_when_openstack_raises collection_alert_def)
  next
    case vx
    from not_raises[OF vx(1)] obtain os' where c1: "openstack_client = map_option Inr os'" ..
    from raises_exn[OF vx(2)] obtain e where c2: "vxsds_manager = Some (Inl e)" ..
    from vx show ?thesis
      unfolding c1 c2
      by (simp add: status_when_vxsds_raises[THEN conjunct2] returned_map collection_alert_def)
  next
    case ovs
    from not_raises[OF ovs(1)] obtain os' where c1: "openstack_client = map_option Inr os'" ..
    from not_raises[OF ovs(2)] obtain vx' where c2: "vxsds_manager = map_option Inr vx'" ..
    from raises_exn[OF ovs(3)] obtain e where c3: "ovs_manager = Some (Inl e)" ..
    from ovs show ?thesis
      unfolding c1 c2 c3
      by (simp add: status_when_ovs_raises[THEN conjunct2] returned_map collection_alert_def)
  next
    case none
    from not_raises[OF none(1)] obtain os' where c1: "openstack_client = map_option Inr os'" ..
    from not_raises[OF none(2)] obtain vx' where c2: "vxsds_manager = map_option Inr vx'" ..
    from not_raises[OF none(3)] obtain ovs' where c3: "ovs_manager = map_option Inr ovs'" ..
    from none show ?thesis
      unfolding c1 c2 c3 by (simp add: status_when_all_return[THEN conjunct2] returned_map)
  qed
qed

text \<open>
  C7, as the code has it. The reporter does not merge the subsystems' verdicts. It reads
  three things: the OpenStack cluster status (an error dict counts as warning), the status
  of the storage report (critical counts as critical, healthy as healthy, and anything
  else, the classifier's own error included, as warning) and the forwarding daemon's CPU
  figure in the performance data (above 80 counts as warning; the network classifier is
  not called). When a monitoring method raises, or the division of line 397 overflows, the
  overall health is error. Otherwise it is the worst of the three readings, critical being
  worse than warning and warning worse than healthy. The alert list holds one line per
  reading that is not healthy (for the storage, the line names the report's status), up to
  the method that raised, and then the line of the handler: the issue and warning strings
  of the subsystems are not copied into it.
\<close>

theorem overall_health_is_worst_of_three:
  "overall_health (get_comprehensive_status fl now openstack_client vxsds_manager ovs_manager) =
     (if raises openstack_client \<or> raises vxsds_manager \<or> raises ovs_manager \<or>
         capacity_overflows (returned vxsds_manager)
      then ''error''
      else worst_of (worst_of (openstack_verdict (returned openstack_client))
                              (vxsds_verdict (returned vxsds_manager)))
                    (ovs_verdict (returned ovs_manager))) \<and>
   alerts (get_comprehensive_status fl now openstack_client vxsds_manager ovs_manager) =
     (if raises openstack_client then collection_alert openstack_client
      else if raises vxsds_manager
      then subsystem_alerts (returned openstack_client) None None @
           collection_alert vxsds_manager
      else if raises ovs_manager
      then subsystem_alerts (returned openstack_client) (returned vxsds_manager) None @
           collection_alert ovs_manager
      else subsystem_alerts (returned openstack_client) (returned vxsds_manager)
             (returned ovs_manager) @
           (if capacity_overflows (returned vxsds_manager)
            then [StatusCollectionError OverflowError] else []))"
  using comprehensive_health comprehensive_alerts by (rule conjI)

lemma critical_report_no_overflow: "\<not> capacity_overflows (Some critical_report)"
proof -
  from critical_report_fields(4) obtain s where "metrics critical_report = Some s"
      "capacity s = \<lparr>total_gb = 0, free_gb = 0, used_gb = 0\<rparr>"
    by (cases "metrics critical_report") auto
  then show ?thesis by (simp add: capacity_overflows_def)
qed

lemma overflow_report_overflows: "capacity_overflows (Some overflow_report)"
proof -
  from overflow_report_fields(3) obtain s where "metrics overflow_report = Some s"
      "capacity s = \<lparr>total_gb = 1, free_gb = 2 ^ 1024, used_gb = 1 - 2 ^ 1024\<rparr>"
    by (cases "metrics overflow_report") auto
  then show ?thesis using huge_quotient_overflows by (simp add: capacity_overflows_def)
qed

lemma unreadable_call_value:
  "fst (get_cee_storage_summary unreadable_env CEEVxSDSManager_init) =
     Inl (AdapterError ''malformed body'')"
  by (simp add: get_cee_storage_summary_def update_cache_def ask_def unreadable_env_def
      first_env_def CEEVxSDSManager_init_def or_empty_def Let_def)

lemma error_report_fields:
  "overall_status error_report = ''error''"
  "issues error_report = [MonitoringError (AdapterError ''malformed body'')]"
  "metrics error_report = None"
proof -
  obtain m' where "get_cee_storage_summary unreadable_env CEEVxSDSManager_init =
      (Inl (AdapterError ''malformed body''), m')"
    using unreadable_call_value
    by (cases "get_cee_storage_summary unreadable_env CEEVxSDSManager_init") simp
  from monitor_vxsds_health_raised[OF this, of no_rounding]
  show "overall_status error_report = ''error''"
    "issues error_report = [MonitoringError (AdapterError ''malformed body'')]"
    "metrics error_report = None"
    by (simp_all add: error_report_def)
qed

lemma quiet_switch_perf:
  "\<exists>p. monitor_ovs_performance Script quiet_switch = Inr p \<and>
       cpu_usage p ''ovs_vswitchd'' = Some 5"
  by (simp add: monitor_ovs_performance_def time_time_def quiet_switch_def Let_def)

theorem overall_health_is_worst_of_three_witness:
  "overall_health (get_comprehensive_status no_rounding 1000 (Some (Inr (Inl (Text ''down''))))
       (Some (Inr critical_report)) (Some (Inr busy_perf))) = ''critical'' \<and>
   alerts (get_comprehensive_status no_rounding 1000 (Some (Inr (Inl (Text ''down''))))
       (Some (Inr critical_report)) (Some (Inr busy_perf))) =
     [OpenStackClusterIssues, VxSDSIssues ''critical'', HighOVSCpuUsage 95] \<and>
   overall_health (get_comprehensive_status no_rounding 1000 None
       (Some (Inr overflow_report)) None) = ''error'' \<and>
   alerts (get_comprehensive_status no_rounding 1000 None
       (Some (Inr overflow_report)) None) =
     [VxSDSIssues ''error'', StatusCollectionError OverflowError]"
proof -
  have 1: "overall_health (get_comprehensive_status no_rounding 1000
       (Some (Inr (Inl (Text ''down'')))) (Some (Inr critical_report)) (Some (Inr busy_perf))) =
       ''critical'' \<and>
     alerts (get_comprehensive_status no_rounding 1000 (Some (Inr (Inl (Text ''down''))))
       (Some (Inr critical_report)) (Some (Inr busy_perf))) =
     [OpenStackClusterIssues, VxSDSIssues ''critical'', HighOVSCpuUsage 95]"
    using overall_health_is_worst_of_three[of no_rounding 1000
        "Some (Inr (Inl (Text ''down'')))" "Some (Inr critical_report)" "Some (Inr busy_perf)"]
      critical_report_no_overflow
    by (simp add: raises_def returned_def worst_of_def verdict_rank_def openstack_verdict_def
        vxsds_verdict_def ovs_verdict_def subsystem_alerts_def critical_report_fields(1)
        busy_perf_def get_or_def)
  have 2: "overall_health (get_comprehensive_status no_rounding 1000 None
       (Some (Inr overflow_report)) None) = ''error'' \<and>
     alerts (get_comprehensive_status no_rounding 1000 None
       (Some (Inr overflow_report)) None) =
     [VxSDSIssues ''error'', StatusCollectionError OverflowError]"
    using overall_health_is_worst_of_three[of no_rounding 1000 None
        "Some (Inr overflow_report)" None]
      overflow_report_overflows
    by (simp add: raises_def returned_def subsystem_alerts_def overflow_report_fields(1))
  from 1 2 show ?thesis by simp
qed

text \<open>
  C7 as stated fails in both halves. The alerts: the storage report has the issue that no
  SDC node is available, and the alert list holds the line with the report's status only.
  The overall health: a storage report whose verdict is error, with no other subsystem,
  gives the overall health warning, which is the verdict of no subsystem; and on a switch
  for which the network classifier's verdict is warning (the bridge br-int is missing) the
  overall health is healthy, because the classifier is not consulted.
\<close>

theorem alerts_omit_issue_strings_counterexample:
  "NoSdcNodes \<in> set (issues critical_report) \<and>
   alerts (get_comprehensive_status no_rounding 1000 None (Some (Inr critical_report)) None) =
     [VxSDSIssues ''critical''] \<and>
   NoSdcNodes \<notin> set (alerts (get_comprehensive_status no_rounding 1000 None
       (Some (Inr critical_report)) None)) \<and>
   overall_status error_report = ''error'' \<and>
   overall_health (get_comprehensive_status no_rounding 1000 None (Some (Inr error_report))
       None) = ''warning'' \<and>
   map_sum id net_overall_status
     (monitor_cee_network_health Script 1000 no_bridges quiet_switch) = Inr ''warning'' \<and>
   overall_health (get_comprehensive_status no_rounding 1000 None None
       (Some (monitor_ovs_performance Script quiet_switch))) = ''healthy''"
proof -
  have a: "alerts (get_comprehensive_status no_rounding 1000 None (Some (Inr critical_report))
      None) = [VxSDSIssues ''critical'']"
    unfolding comprehensive_alerts using critical_report_no_overflow
    by (simp add: raises_def returned_def subsystem_alerts_def critical_report_fields(1))
  have "\<not> capacity_overflows (Some error_report)"
    by (simp add: capacity_overflows_def error_report_fields(3))
  then have b: "overall_health (get_comprehensive_status no_rounding 1000 None
      (Some (Inr error_report)) None) = ''warning''"
    unfolding comprehensive_health
    by (simp add: raises_def returned_def worst_of_def verdict_rank_def openstack_verdict_def
        vxsds_verdict_def ovs_verdict_def error_report_fields(1))
  have c: "map_sum id net_overall_status
     (monitor_cee_network_health Script 1000 no_bridges quiet_switch) = Inr ''warning''"
    by (simp add: monitor_cee_network_health_def monitor_ovs_performance_def time_time_def
        no_bridges_def quiet_switch_def Let_def)
  obtain p where p: "monitor_ovs_performance Script quiet_switch = Inr p"
      "cpu_usage p ''ovs_vswitchd'' = Some 5"
    using quiet_switch_perf by blast
  have d: "overall_health (get_comprehensive_status no_rounding 1000 None None
       (Some (monitor_ovs_performance Script quiet_switch))) = ''healthy''"
    unfolding comprehensive_health p(1)
    by (simp add: raises_def returned_def capacity_overflows_def worst_of_def verdict_rank_def
        openstack_verdict_def vxsds_verdict_def ovs_verdict_def get_or_def p(2))
  from a b c d show ?thesis
    by (simp add: critical_report_fields(2) error_report_fields(1))
qed

text \<open>
  C10, as the code has it. Unless the storage report is critical, the overall health is not
  critical, whatever the OpenStack status and the switch CPU are. It is not always at most
  warning: it is healthy or warning, or error, and error exactly when one of the monitoring
  methods raises or the division of line 397 overflows.
\<close>

theorem only_storage_drives_critical:
  assumes "\<And>r. vxsds_manager = Some (Inr r) \<Longrightarrow> overall_status r \<noteq> ''critical''"
  shows "overall_health (get_comprehensive_status fl now openstack_client vxsds_manager
             ovs_manager) \<noteq> ''critical'' \<and>
         overall_health (get_comprehensive_status fl now openstack_client vxsds_manager
             ovs_manager) \<in> {''healthy'', ''warning'', ''error''} \<and>
         (overall_health (get_comprehensive_status fl now openstack_client vxsds_manager
             ovs_manager) = ''error'' \<longleftrightarrow>
          raises openstack_client \<or> raises vxsds_manager \<or> raises ovs_manager \<or>
          capacity_overflows (returned vxsds_manager))"
proof -
  have v: "vxsds_verdict (returned vxsds_manager) \<in> {''healthy'', ''warning''}"
    using assms
    by (auto simp: vxsds_verdict_def returned_def split: option.splits sum.splits)
  note o = openstack_verdict_range[of "returned openstack_client"]
  note n = ovs_verdict_range[of "returned ovs_manager"]
  have w: "worst_of (worst_of (openstack_verdict (returned openstack_client))
                              (vxsds_verdict (returned vxsds_manager)))
                    (ovs_verdict (returned ovs_manager)) \<in> {''healthy'', ''warning''}"
    using o v n by (auto simp: worst_of_def)
  show ?thesis
    unfolding comprehensive_health using w by auto
qed

theorem only_storage_drives_critical_witness:
  "overall_status warning_report \<noteq> ''critical'' \<and>
   overall_health (get_comprehensive_status no_rounding 1000 (Some (Inr (Inl (Text ''down''))))
       (Some (Inr warning_report)) (Some (Inr busy_perf))) \<in> {''healthy'', ''warning''}"
proof -
  have h: "\<And>r. Some (Inr warning_report) = Some (Inr r) \<Longrightarrow> overall_status r \<noteq> ''critical''"
    by (auto simp: warning_report_def)
  from only_storage_drives_critical[where vxsds_manager = "Some (Inr warning_report)"
      and now = 1000 and openstack_client = "Some (Inr (Inl (Text ''down'')))"
      and ovs_manager = "Some (Inr busy_perf)" and fl = no_rounding, OF h]
  show ?thesis
    by (auto simp: raises_def returned_def capacity_overflows_def warning_report_def)
qed

text \<open>
  C10 as stated fails: the storage report is not critical and the overall health is error,
  which is not at most warning. Once with the report of a gateway whose pool has capacity 1
  and free capacity \<open>2^1024\<close>: the division of line 397 overflows. Once with a warning
  report and the switch manager of the imported module, whose monitoring method raises.
\<close>

theorem only_storage_drives_critical_counterexample:
  "overall_status overflow_report = ''error'' \<and>
   overall_health (get_comprehensive_status no_rounding 1000 None (Some (Inr overflow_report))
       None) = ''error'' \<and>
   overall_status warning_report = ''warning'' \<and>
   overall_health (get_comprehensive_status no_rounding 1000 None (Some (Inr warning_report))
       (Some (monitor_ovs_performance Imported quiet_switch))) = ''error''"
proof -
  have a: "overall_health (get_comprehensive_status no_rounding 1000 None
      (Some (Inr overflow_report)) None) = ''error''"
    unfolding comprehensive_health using overflow_report_overflows
    by (simp add: returned_def)
  have r: "raises (Some (monitor_ovs_performance Imported quiet_switch))"
    by (simp add: raises_def monitor_ovs_performance_def time_time_def)
  have b: "overall_health (get_comprehensive_status no_rounding 1000 None
      (Some (Inr warning_report)) (Some (monitor_ovs_performance Imported quiet_switch))) =
      ''error''"
    unfolding comprehensive_health using r by simp
  from a b show ?thesis by (simp add: overflow_report_fields(1) warning_report_def)
qed

end
